theory Spec2Isabelle
  imports Complex_Main "HOL-Library.AList"
begin

section \<open>Protocols (pkg/protocol)\<close>

text \<open>
  \<^verbatim>\<open>type Protocol string\<close>: a protocol is a string, the four supported ones are
  constants. Any other string is a value of the type too, which is why the switches of
  the source have a default branch.
\<close>

type_synonym Protocol = string

definition Chat :: Protocol where "Chat = ''chat''"
definition Vision :: Protocol where "Vision = ''vision''"
definition Tools :: Protocol where "Tools = ''tools''"
definition Embeddings :: Protocol where "Embeddings = ''embeddings''"

definition SupportsStreaming :: "Protocol \<Rightarrow> bool" where
  "SupportsStreaming p =
     (if p = Chat \<or> p = Vision \<or> p = Tools then True
      else if p = Embeddings then False
      else False)"

section \<open>Errors (Go error values and their Unwrap chains)\<close>

text \<open>
  A Go error is a chain of layers linked by \<^verbatim>\<open>Unwrap\<close>. The layers the client
  distinguishes are the two context sentinels, \<^verbatim>\<open>*HTTPStatusError\<close> (status code,
  status text, body), \<^verbatim>\<open>*net.OpError\<close>, \<^verbatim>\<open>*net.DNSError\<close> (its IsTimeout and
  IsTemporary flags), \<^verbatim>\<open>*url.Error\<close>, the result of \<^verbatim>\<open>fmt.Errorf\<close> with one
  \<^verbatim>\<open>%w\<close> verb (message prefix and wrapped error, which may be nil) and any other
  leaf error. A nil error is \<open>None\<close> of \<open>error option\<close>.
\<close>

datatype error =
    Canceled
  | DeadlineExceeded
  | HTTPStatusError int string string
  | OpError "error option"
  | DNSError bool bool
  | URLError "error option"
  | Wrapped string "error option"
  | ErrorString string

text \<open>
  The chain that \<^verbatim>\<open>errors.Is\<close> and \<^verbatim>\<open>errors.As\<close> walk, outermost layer first:
  \<^verbatim>\<open>*net.OpError\<close>, \<^verbatim>\<open>*url.Error\<close> and the errors of \<^verbatim>\<open>fmt.Errorf\<close> unwrap to
  the error they hold.
\<close>

fun chain :: "error \<Rightarrow> error list" where
  "chain (OpError e) = OpError e # (case e of None \<Rightarrow> [] | Some e' \<Rightarrow> chain e')"
| "chain (URLError e) = URLError e # (case e of None \<Rightarrow> [] | Some e' \<Rightarrow> chain e')"
| "chain (Wrapped m e) = Wrapped m e # (case e of None \<Rightarrow> [] | Some e' \<Rightarrow> chain e')"
| "chain e = [e]"

definition errorsIs :: "error \<Rightarrow> error \<Rightarrow> bool" where
  "errorsIs err target = (target \<in> set (chain err))"

text \<open>
  The typed views that \<^verbatim>\<open>errors.As\<close> extracts: the status code of an
  \<^verbatim>\<open>*HTTPStatusError\<close>, the presence of a \<^verbatim>\<open>*net.OpError\<close>, the IsTimeout and
  IsTemporary flags of a \<^verbatim>\<open>*net.DNSError\<close>, the Err field of a \<^verbatim>\<open>*url.Error\<close>.
\<close>

fun httpStatusError :: "error \<Rightarrow> int option" where
  "httpStatusError (HTTPStatusError StatusCode Status Body) = Some StatusCode"
| "httpStatusError e = None"

fun netOpError :: "error \<Rightarrow> unit option" where
  "netOpError (OpError e) = Some ()"
| "netOpError e = None"

fun netDNSError :: "error \<Rightarrow> (bool \<times> bool) option" where
  "netDNSError (DNSError IsTimeout IsTemporary) = Some (IsTimeout, IsTemporary)"
| "netDNSError e = None"

fun urlError :: "error \<Rightarrow> error option option" where
  "urlError (URLError e) = Some e"
| "urlError e = None"

fun firstSome :: "('a \<Rightarrow> 'b option) \<Rightarrow> 'a list \<Rightarrow> 'b option" where
  "firstSome f [] = None"
| "firstSome f (x # xs) = (case f x of Some y \<Rightarrow> Some y | None \<Rightarrow> firstSome f xs)"

text \<open>\<^verbatim>\<open>errors.As\<close>: the first layer of the chain that has the target type.\<close>

definition errorsAs :: "(error \<Rightarrow> 'b option) \<Rightarrow> error \<Rightarrow> 'b option" where
  "errorsAs asT err = firstSome asT (chain err)"

lemma size_chain: "x \<in> set (chain e) \<Longrightarrow> size x \<le> size e"
  by (induction e rule: chain.induct) (auto split: option.splits)

lemma firstSome_mem: "firstSome f xs = Some y \<Longrightarrow> \<exists>x \<in> set xs. f x = Some y"
  by (induction xs) (auto split: option.splits)

lemma urlError_Some: "urlError x = Some e \<Longrightarrow> x = URLError e"
  by (cases x) auto

lemma errorsAs_urlError_size:
  assumes "errorsAs urlError err = Some (Some inner)"
  shows "size inner < size err"
proof -
  obtain x where x: "x \<in> set (chain err)" "urlError x = Some (Some inner)"
    using assms firstSome_mem unfolding errorsAs_def by fastforce
  then have "x = URLError (Some inner)" by (simp add: urlError_Some)
  then have "size (URLError (Some inner)) \<le> size err" using x(1) size_chain by blast
  then show ?thesis by simp
qed

text \<open>
  \<^verbatim>\<open>dnsErr.Temporary()\<close> is \<^verbatim>\<open>IsTimeout || IsTemporary\<close> and
  \<^verbatim>\<open>dnsErr.Timeout()\<close> is \<^verbatim>\<open>IsTimeout\<close>.
\<close>

function isRetryableError :: "error option \<Rightarrow> bool" where
  "isRetryableError None = False"
| "isRetryableError (Some err) =
     (if errorsIs err Canceled \<or> errorsIs err DeadlineExceeded then False
      else case errorsAs httpStatusError err of
        Some StatusCode \<Rightarrow>
          StatusCode = 429 \<or> StatusCode = 502 \<or> StatusCode = 503 \<or> StatusCode = 504
      | None \<Rightarrow>
        (case errorsAs netOpError err of
           Some netOpErr \<Rightarrow> True
         | None \<Rightarrow>
           (case errorsAs netDNSError err of
              Some (IsTimeout, IsTemporary) \<Rightarrow> (IsTimeout \<or> IsTemporary) \<or> IsTimeout
            | None \<Rightarrow>
              (case errorsAs urlError err of
                 Some inner \<Rightarrow> isRetryableError inner
               | None \<Rightarrow> False))))"
  by pat_completeness auto
termination
proof (relation "measure (\<lambda>e. case e of None \<Rightarrow> 0 | Some x \<Rightarrow> Suc (size x))")
  show "wf (measure (\<lambda>e. case e of None \<Rightarrow> 0 | Some x \<Rightarrow> Suc (size x)))" by simp
next
  fix err :: error and inner :: "error option"
  assume "errorsAs urlError err = Some inner"
  then show "(inner, Some err) \<in> measure (\<lambda>e. case e of None \<Rightarrow> 0 | Some x \<Rightarrow> Suc (size x))"
    by (cases inner) (auto dest: errorsAs_urlError_size)
qed

section \<open>Retry configuration and backoff (pkg/config, client retry)\<close>

text \<open>
  \<^verbatim>\<open>time.Duration\<close>, \<^verbatim>\<open>config.Duration\<close> and \<^verbatim>\<open>int\<close> are 64-bit signed integers:
  they are modelled as \<open>int\<close> with the wrap-around of every arithmetic operation written
  out by \<open>wrap64\<close>. The field BackoffMultiplier (a float64) of the source is never read by
  the retry code and is left out of the record.
\<close>

definition wrap64 :: "int \<Rightarrow> int" where
  "wrap64 x = (x + 2 ^ 63) mod 2 ^ 64 - 2 ^ 63"

text \<open>Go's integer division truncates towards zero.\<close>

definition quot :: "int \<Rightarrow> int \<Rightarrow> int" where
  "quot a b = sgn a * sgn b * (\<bar>a\<bar> div \<bar>b\<bar>)"

text \<open>\<^verbatim>\<open>x << n\<close> on int64 with an unsigned count: counts of 64 and more give 0.\<close>

definition shiftl :: "int \<Rightarrow> nat \<Rightarrow> int" where
  "shiftl x n = (if 64 \<le> n then 0 else wrap64 (x * 2 ^ n))"

text \<open>
  \<^verbatim>\<open>rand.Int63n(n)\<close> panics when \<open>n \<le> 0\<close> and otherwise returns a value of
  \<open>[0, n)\<close>. The generator's raw draw \<open>r\<close> is an input of the model; every value
  of \<open>[0, n)\<close> is \<open>r mod n\<close> for some draw. \<open>None\<close> is the panic.
\<close>

definition Int63n :: "int \<Rightarrow> int \<Rightarrow> int option" where
  "Int63n r n = (if n \<le> 0 then None else Some (r mod n))"

record RetryConfig =
  MaxRetries :: int
  InitialBackoff :: int
  MaxBackoff :: int
  Jitter :: bool

definition calculateBackoff :: "int \<Rightarrow> RetryConfig \<Rightarrow> int \<Rightarrow> int option" where
  "calculateBackoff attempt cfg r =
     (let maxAttempt = min attempt 10;
          delay = wrap64 (InitialBackoff cfg * shiftl 1 (nat (maxAttempt mod 2 ^ 64)))
      in if Jitter cfg then
           (let jitterRange = quot delay 4 in
            case Int63n r (wrap64 (jitterRange * 2)) of
              None \<Rightarrow> None
            | Some n \<Rightarrow>
                (let jitter = wrap64 (n - jitterRange);
                     delay' = wrap64 (delay + jitter)
                 in Some (min delay' (MaxBackoff cfg))))
         else Some (min delay (MaxBackoff cfg)))"

text \<open>
  The delay the specification writes, \<open>initialBackoff * 2^min(k,10)\<close>, in unbounded
  integers.
\<close>

definition exponential :: "RetryConfig \<Rightarrow> int \<Rightarrow> int" where
  "exponential cfg k = InitialBackoff cfg * 2 ^ nat (min k 10)"

section \<open>The retry loop (client retry)\<close>

text \<open>Decimal rendering of an integer, for the \<^verbatim>\<open>%d\<close> verb of \<^verbatim>\<open>fmt.Errorf\<close>.\<close>

definition digit :: "nat \<Rightarrow> char" where
  "digit n = ''0123456789'' ! n"

fun string_of_nat :: "nat \<Rightarrow> string" where
  "string_of_nat n =
     (if n < 10 then [digit n]
      else string_of_nat (n div 10) @ [digit (n mod 10)])"

definition string_of_int :: "int \<Rightarrow> string" where
  "string_of_int i =
     (if i < 0 then CHR ''-'' # string_of_nat (nat (- i)) else string_of_nat (nat i))"

text \<open>
  What the caller's context does is an input of the model, indexed by the loop counter:
  \<open>ctxErr i\<close> is the value of \<^verbatim>\<open>ctx.Err()\<close> at the check before attempt \<open>i\<close>;
  \<open>ctxDone i\<close> is \<open>Some e\<close> when, in the backoff after attempt \<open>i\<close>, the
  \<^verbatim>\<open>select\<close> takes \<^verbatim>\<open><-ctx.Done()\<close> (with \<open>e\<close> the value of \<^verbatim>\<open>ctx.Err()\<close>) and
  \<open>None\<close> when the timer fires; \<open>draw i\<close> is the generator's raw draw in that backoff.
\<close>

record Context =
  ctxErr :: "int \<Rightarrow> error option"
  ctxDone :: "int \<Rightarrow> error option"
  draw :: "int \<Rightarrow> int"

text \<open>
  A call returns its error or its result, or panics (the random draw of the backoff).
\<close>

datatype 'a run = Return "error + 'a" | Panic

text \<open>
  The operation is a closure over mutable state: it maps the state before the call to its
  outcome and the state after. The loop returns, with the outcome, the final state, the
  number of invocations of the operation and the delays that were waited in full. The
  counter \<open>attempt\<close> is a Go int, so its increment wraps: with \<open>MaxRetries\<close> at the
  largest int the condition of the loop never fails, and a run that the source never ends
  has the result \<open>None\<close>.
\<close>

partial_function (option) doWithRetry_loop ::
  "Context \<Rightarrow> RetryConfig \<Rightarrow> ('s \<Rightarrow> (error + 'a) \<times> 's) \<Rightarrow> int \<Rightarrow> error option \<Rightarrow> 's
     \<Rightarrow> nat \<Rightarrow> int list \<Rightarrow> ('a run \<times> 's \<times> nat \<times> int list) option" where
  "doWithRetry_loop ctx cfg operation attempt lastErr s n waits =
     (if attempt \<le> MaxRetries cfg then
        (case ctxErr ctx attempt of
           Some err \<Rightarrow>
             Some (Return (Inl (Wrapped ''operation cancelled: '' (Some err))), s, n, waits)
         | None \<Rightarrow>
             (case operation s of
                (Inr result, s') \<Rightarrow> Some (Return (Inr result), s', Suc n, waits)
              | (Inl err, s') \<Rightarrow>
                  if \<not> isRetryableError (Some err)
                  then Some (Return (Inl err), s', Suc n, waits)
                  else if attempt < MaxRetries cfg then
                    (case calculateBackoff attempt cfg (draw ctx attempt) of
                       None \<Rightarrow> Some (Panic, s', Suc n, waits)
                     | Some delay \<Rightarrow>
                         (case ctxDone ctx attempt of
                            Some cerr \<Rightarrow>
                              Some (Return (Inl (Wrapped ''operation cancelled during backoff: ''
                                                   (Some cerr))), s', Suc n, waits)
                          | None \<Rightarrow>
                              doWithRetry_loop ctx cfg operation (wrap64 (attempt + 1))
                                (Some err) s' (Suc n) (waits @ [delay])))
                  else doWithRetry_loop ctx cfg operation (wrap64 (attempt + 1))
                         (Some err) s' (Suc n) waits))
      else Some (Return (Inl (Wrapped (''max retries ('' @ string_of_int (MaxRetries cfg)
                                         @ '') exceeded: '') lastErr)), s, n, waits))"

text \<open>The state an operation leaves behind.\<close>

definition stateAfter :: "('s \<Rightarrow> 'r \<times> 's) \<Rightarrow> 's \<Rightarrow> 's" where
  "stateAfter operation s = snd (operation s)"

definition doWithRetry ::
  "Context \<Rightarrow> RetryConfig \<Rightarrow> ('s \<Rightarrow> (error + 'a) \<times> 's) \<Rightarrow> 's
     \<Rightarrow> ('a run \<times> 's \<times> nat \<times> int list) option" where
  "doWithRetry ctx cfg operation s = doWithRetry_loop ctx cfg operation 0 None s 0 []"

section \<open>The execution client\<close>

text \<open>
  \<^verbatim>\<open>providers.Request\<close>, the prepared request. Header maps are association lists.
\<close>

record ProviderRequest =
  URL :: string
  Headers :: "(string \<times> string) list"
  Body :: string

text \<open>
  A response body is the bytes that arrive and how the stream ends: \<open>None\<close> is
  \<^verbatim>\<open>io.EOF\<close>, \<open>Some e\<close> a read error. \<^verbatim>\<open>httpClient.Do\<close> returns a transport
  error or a response (StatusCode, Status, Body).
\<close>

type_synonym body = "string \<times> error option"

datatype httpResult = TransportError error | Response int string body

text \<open>
  The network is an input of the model: whether \<^verbatim>\<open>http.NewRequestWithContext\<close>
  rejects a URL, and what the \<open>n\<close>-th call of \<^verbatim>\<open>httpClient.Do\<close> returns for the
  request it is given.
\<close>

record world =
  NewRequestWithContext :: "string \<Rightarrow> error option"
  Do :: "nat \<Rightarrow> ProviderRequest \<Rightarrow> httpResult"

text \<open>
  \<^verbatim>\<open>response.StreamingChunk\<close>. The \<^verbatim>\<open>any\<close> values of a provider's stream are
  chunks or values of another type, which the client's adapter drops.
\<close>

record Choice =
  Index :: int
  Role :: string
  Content :: string
  FinishReason :: "string option"

record StreamingChunk =
  ID :: string
  Object :: string
  Created :: int
  Model :: string
  Choices :: "Choice list"
  Error :: "error option"

datatype item = IsChunk StreamingChunk | NotChunk

text \<open>
  The interfaces \<^verbatim>\<open>providers.Provider\<close> and \<^verbatim>\<open>request.Request\<close> are records of
  their methods, as far as the client calls them. \<open>'r\<close> is the type of parsed results
  (\<^verbatim>\<open>any\<close> in the source). A provider's stream is the sequence of values its channel
  delivers before it is closed.
\<close>

record 'r Provider =
  Endpoint :: "Protocol \<Rightarrow> error + string"
  SetHeaders :: "(string \<times> string) list \<Rightarrow> (string \<times> string) list"
  PrepareRequest :: "Protocol \<Rightarrow> string \<Rightarrow> (string \<times> string) list \<Rightarrow> error + ProviderRequest"
  PrepareStreamRequest ::
    "Protocol \<Rightarrow> string \<Rightarrow> (string \<times> string) list \<Rightarrow> error + ProviderRequest"
  ProcessResponse :: "int \<Rightarrow> body \<Rightarrow> Protocol \<Rightarrow> error + 'r"
  ProcessStreamResponse :: "int \<Rightarrow> body \<Rightarrow> Protocol \<Rightarrow> error + item list"

record 'r Request =
  reqProtocol :: Protocol
  reqHeaders :: "(string \<times> string) list"
  reqMarshal :: "error + string"
  reqProvider :: "'r Provider"

text \<open>
  The client's mutable state is its health flag. \<open>sent\<close> counts the requests handed to
  the transport so far; it indexes the responses of the \<open>world\<close>.
\<close>

record client =
  healthy :: bool
  sent :: nat

record ClientConfig =
  Timeout :: int
  Retry :: RetryConfig
  ConnectionPoolSize :: int
  ConnectionTimeout :: int

definition New :: client where
  "New = \<lparr>healthy = True, sent = 0\<rparr>"

definition IsHealthy :: "client \<Rightarrow> bool" where
  "IsHealthy c = healthy c"

definition setHealthy :: "bool \<Rightarrow> client \<Rightarrow> client" where
  "setHealthy h c = c\<lparr>healthy := h\<rparr>"

definition execute :: "world \<Rightarrow> 'r Request \<Rightarrow> client \<Rightarrow> (error + 'r) \<times> client" where
  "execute w req c =
     (let provider = reqProvider req; proto = reqProtocol req in
      case reqMarshal req of
        Inl err \<Rightarrow> (Inl (Wrapped ''failed to marshal request: '' (Some err)), c)
      | Inr body \<Rightarrow>
        (case PrepareRequest provider proto body (reqHeaders req) of
           Inl err \<Rightarrow> (Inl (Wrapped ''failed to prepare request: '' (Some err)), c)
         | Inr providerRequest \<Rightarrow>
           (case NewRequestWithContext w (URL providerRequest) of
              Some err \<Rightarrow> (Inl (Wrapped ''failed to create HTTP request: '' (Some err)), c)
            | None \<Rightarrow>
              (let httpReq = providerRequest
                     \<lparr>Headers := SetHeaders provider (Headers providerRequest)\<rparr>;
                   c1 = c\<lparr>sent := Suc (sent c)\<rparr>
               in case Do w (sent c) httpReq of
                    TransportError err \<Rightarrow> (Inl err, setHealthy False c1)
                  | Response StatusCode Status respBody \<Rightarrow>
                      if StatusCode \<noteq> 200
                      then (Inl (HTTPStatusError StatusCode Status (fst respBody)),
                            setHealthy False c1)
                      else (case ProcessResponse provider StatusCode respBody proto of
                              Inl err \<Rightarrow> (Inl err, setHealthy False c1)
                            | Inr result \<Rightarrow> (Inr result, setHealthy True c1))))))"

definition Execute ::
  "Context \<Rightarrow> ClientConfig \<Rightarrow> world \<Rightarrow> 'r Request \<Rightarrow> client
     \<Rightarrow> ('r run \<times> client \<times> nat \<times> int list) option" where
  "Execute ctx config w req c = doWithRetry ctx (Retry config) (execute w req) c"

text \<open>
  The adapter goroutine of \<^verbatim>\<open>executeStream\<close>: it forwards every chunk of the
  provider's stream to the output channel unless the \<^verbatim>\<open>select\<close> of the \<open>n\<close>-th
  send takes \<^verbatim>\<open><-ctx.Done()\<close> (\<open>cancelled n\<close>). The result is the chunks the consumer
  receives before the channel is closed, and whether the stream was read to its end.
\<close>

fun forward :: "(nat \<Rightarrow> bool) \<Rightarrow> nat \<Rightarrow> item list \<Rightarrow> StreamingChunk list \<times> bool" where
  "forward cancelled n [] = ([], True)"
| "forward cancelled n (IsChunk chunk # stream) =
     (if cancelled n then ([], False)
      else (case forward cancelled (Suc n) stream of (out, ended) \<Rightarrow> (chunk # out, ended)))"
| "forward cancelled n (NotChunk # stream) = forward cancelled n stream"

text \<open>
  \<^verbatim>\<open>executeStream\<close> returns the output channel at once and the adapter runs
  afterwards; the model returns the channel's whole content and the client as it is once
  the channel is closed.
\<close>

definition executeStream ::
  "(nat \<Rightarrow> bool) \<Rightarrow> world \<Rightarrow> 'r Request \<Rightarrow> client
     \<Rightarrow> (error + StreamingChunk list) \<times> client" where
  "executeStream cancelled w req c =
     (let provider = reqProvider req; proto = reqProtocol req in
      case reqMarshal req of
        Inl err \<Rightarrow> (Inl (Wrapped ''failed to marshal request: '' (Some err)), c)
      | Inr body \<Rightarrow>
        (case PrepareStreamRequest provider proto body (reqHeaders req) of
           Inl err \<Rightarrow> (Inl (Wrapped ''failed to prepare streaming request: '' (Some err)), c)
         | Inr providerRequest \<Rightarrow>
           (case NewRequestWithContext w (URL providerRequest) of
              Some err \<Rightarrow> (Inl (Wrapped ''failed to create HTTP request: '' (Some err)), c)
            | None \<Rightarrow>
              (let httpReq = providerRequest
                     \<lparr>Headers := SetHeaders provider (Headers providerRequest)\<rparr>;
                   c1 = c\<lparr>sent := Suc (sent c)\<rparr>
               in case Do w (sent c) httpReq of
                    TransportError err \<Rightarrow>
                      (Inl (Wrapped ''streaming request failed: '' (Some err)),
                       setHealthy False c1)
                  | Response StatusCode Status respBody \<Rightarrow>
                      if StatusCode \<noteq> 200
                      then (Inl (ErrorString (''streaming request failed with status ''
                                   @ string_of_int StatusCode @ '': '' @ fst respBody)),
                            setHealthy False c1)
                      else (case ProcessStreamResponse provider StatusCode respBody proto of
                              Inl err \<Rightarrow> (Inl err, setHealthy False c1)
                            | Inr stream \<Rightarrow>
                                (case forward cancelled 0 stream of
                                   (out, ended) \<Rightarrow>
                                     (Inr out,
                                      if ended then setHealthy True c1 else c1)))))))"

definition ExecuteStream ::
  "(nat \<Rightarrow> bool) \<Rightarrow> world \<Rightarrow> 'r Request \<Rightarrow> client
     \<Rightarrow> (error + StreamingChunk list) \<times> client" where
  "ExecuteStream cancelled w req c =
     (let proto = reqProtocol req in
      if \<not> SupportsStreaming proto
      then (Inl (ErrorString (''protocol '' @ proto @ '' does not support streaming'')), c)
      else executeStream cancelled w req c)"

section \<open>Concrete inputs\<close>

text \<open>
  A provider, a request, a network that answers every call alike, a context that is never
  cancelled and a client configuration, for evaluating the model on concrete runs.
\<close>

definition exampleProvider :: "string Provider" where
  "exampleProvider =
     \<lparr>Endpoint = (\<lambda>proto. Inr ''http://host/v1/chat/completions''),
      SetHeaders = (\<lambda>headers. headers),
      PrepareRequest = (\<lambda>proto body headers.
        Inr \<lparr>URL = ''http://host/v1/chat/completions'', Headers = headers, Body = body\<rparr>),
      PrepareStreamRequest = (\<lambda>proto body headers.
        Inr \<lparr>URL = ''http://host/v1/chat/completions'', Headers = headers, Body = body\<rparr>),
      ProcessResponse = (\<lambda>code respBody proto. Inr (fst respBody)),
      ProcessStreamResponse = (\<lambda>code respBody proto. Inr [])\<rparr>"

definition exampleRequest :: "Protocol \<Rightarrow> error + string \<Rightarrow> string Request" where
  "exampleRequest proto marshalled =
     \<lparr>reqProtocol = proto, reqHeaders = [(''Content-Type'', ''application/json'')],
      reqMarshal = marshalled, reqProvider = exampleProvider\<rparr>"

definition exampleWorld :: "httpResult \<Rightarrow> world" where
  "exampleWorld r = \<lparr>NewRequestWithContext = (\<lambda>url. None), Do = (\<lambda>n httpReq. r)\<rparr>"

definition background :: Context where
  "background = \<lparr>ctxErr = (\<lambda>i. None), ctxDone = (\<lambda>i. None), draw = (\<lambda>i. 0)\<rparr>"

definition exampleConfig :: "RetryConfig \<Rightarrow> ClientConfig" where
  "exampleConfig r = \<lparr>Timeout = 30000000000, Retry = r, ConnectionPoolSize = 10,
                        ConnectionTimeout = 10000000000\<rparr>"

section \<open>Strings (package strings)\<close>

definition HasPrefix :: "string \<Rightarrow> string \<Rightarrow> bool" where
  "HasPrefix s prefix = (length prefix \<le> length s \<and> take (length prefix) s = prefix)"

definition HasSuffix :: "string \<Rightarrow> string \<Rightarrow> bool" where
  "HasSuffix s suffix =
     (length suffix \<le> length s \<and> drop (length s - length suffix) s = suffix)"

definition TrimPrefix :: "string \<Rightarrow> string \<Rightarrow> string" where
  "TrimPrefix s prefix = (if HasPrefix s prefix then drop (length prefix) s else s)"

definition TrimSuffix :: "string \<Rightarrow> string \<Rightarrow> string" where
  "TrimSuffix s suffix = (if HasSuffix s suffix then take (length s - length suffix) s else s)"

definition CutPrefix :: "string \<Rightarrow> string \<Rightarrow> string \<times> bool" where
  "CutPrefix s prefix = (if HasPrefix s prefix then (drop (length prefix) s, True) else (s, False))"

section \<open>Values of type any and JSON documents\<close>

text \<open>
  The values that travel as \<^verbatim>\<open>any\<close> and \<^verbatim>\<open>map[string]any\<close>: strings, numbers,
  booleans, nil, slices, string-keyed maps (association lists, read through \<open>map_of\<close>),
  slices of \<^verbatim>\<open>protocol.Message\<close>, and \<open>Unsupported\<close> for the values that
  \<^verbatim>\<open>encoding/json\<close> refuses to encode (channels, functions, NaN).
\<close>

datatype any =
    Str string
  | Num int
  | Bool bool
  | Nil
  | Arr "any list"
  | Obj "(string \<times> any) list"
  | Msgs "Message list"
  | Unsupported
and Message = Message (Role: string) (Content: any)

text \<open>\<^verbatim>\<open>maps.Copy(dst, src)\<close>: every entry of \<open>src\<close> is stored into \<open>dst\<close>.\<close>

definition mapsCopy :: "(string \<times> any) list \<Rightarrow> (string \<times> any) list \<Rightarrow> (string \<times> any) list" where
  "mapsCopy dst src = fold (\<lambda>(k, v) m. AList.update k v m) src dst"

text \<open>
  \<^verbatim>\<open>json.Marshal\<close>, as far as the providers depend on it. It fails with an
  \<^verbatim>\<open>UnsupportedTypeError\<close> when the value contains one that cannot be encoded.
  Otherwise it returns the JSON text, which the model keeps as the document that the text
  denotes: every string, map keys included, with each byte that does not begin a valid
  UTF-8 encoding replaced by U+FFFD (the bytes EF BF BD), as the encoder writes it.
\<close>

fun encodable :: "any \<Rightarrow> bool" and encodableMessage :: "Message \<Rightarrow> bool" where
  "encodable (Str s) = True"
| "encodable (Num n) = True"
| "encodable (Bool b) = True"
| "encodable Nil = True"
| "encodable (Arr xs) = list_all encodable xs"
| "encodable (Obj kvs) = list_all (\<lambda>kv. encodable (snd kv)) kvs"
| "encodable (Msgs ms) = list_all encodableMessage ms"
| "encodable Unsupported = False"
| "encodableMessage (Message role content) = encodable content"

definition inRange :: "char \<Rightarrow> nat \<Rightarrow> nat \<Rightarrow> bool" where
  "inRange c lo hi = (lo \<le> of_char c \<and> (of_char c :: nat) \<le> hi)"

text \<open>
  \<^verbatim>\<open>utf8.DecodeRuneInString\<close>: the number of bytes of the encoding that the string
  starts with, or 0 when it starts with none (the decoder then returns
  \<^verbatim>\<open>RuneError\<close> with size 1). The second byte of an encoding is restricted after
  the first bytes E0, ED, F0 and F4.
\<close>

fun runeLen :: "string \<Rightarrow> nat" where
  "runeLen [] = 0"
| "runeLen (b0 # t) =
     (let x = (of_char b0 :: nat);
          lo = (if x = 0xE0 then 0xA0 else if x = 0xF0 then 0x90 else 0x80);
          hi = (if x = 0xED then 0x9F else if x = 0xF4 then 0x8F else 0xBF)
      in if x < 0x80 then 1
         else if x < 0xC2 then 0
         else if x < 0xE0 then
           (case t of
              b1 # t1 \<Rightarrow> if inRange b1 0x80 0xBF then 2 else 0
            | [] \<Rightarrow> 0)
         else if x < 0xF0 then
           (case t of
              b1 # b2 # t2 \<Rightarrow> if inRange b1 lo hi \<and> inRange b2 0x80 0xBF then 3 else 0
            | _ \<Rightarrow> 0)
         else if x < 0xF5 then
           (case t of
              b1 # b2 # b3 # t3 \<Rightarrow>
                if inRange b1 lo hi \<and> inRange b2 0x80 0xBF \<and> inRange b3 0x80 0xBF then 4 else 0
            | _ \<Rightarrow> 0)
         else 0)"

text \<open>The string as the JSON encoder writes it and a decoder reads it back.\<close>

function jsonString :: "string \<Rightarrow> string" where
  "jsonString s =
     (if s = [] then []
      else if runeLen s = 0 then [CHR 0xEF, CHR 0xBF, CHR 0xBD] @ jsonString (tl s)
      else take (runeLen s) s @ jsonString (drop (runeLen s) s))"
  by pat_completeness auto
termination
proof (relation "measure length")
  show "wf (measure length)" by simp
next
  fix s :: string
  assume "s \<noteq> []"
  then show "(tl s, s) \<in> measure length" by (cases s) auto
next
  fix s :: string
  assume "s \<noteq> []" "runeLen s \<noteq> 0"
  then show "(drop (runeLen s) s, s) \<in> measure length" by simp
qed

declare jsonString.simps [simp del]

text \<open>\<^verbatim>\<open>utf8.ValidString\<close>: the encoder leaves the string as it is.\<close>

definition ValidString :: "string \<Rightarrow> bool" where
  "ValidString s = (jsonString s = s)"

fun jsonValue :: "any \<Rightarrow> any" and jsonMessage :: "Message \<Rightarrow> Message" where
  "jsonValue (Str s) = Str (jsonString s)"
| "jsonValue (Num n) = Num n"
| "jsonValue (Bool b) = Bool b"
| "jsonValue Nil = Nil"
| "jsonValue (Arr xs) = Arr (map jsonValue xs)"
| "jsonValue (Obj kvs) = Obj (map (\<lambda>kv. (jsonString (fst kv), jsonValue (snd kv))) kvs)"
| "jsonValue (Msgs ms) = Msgs (map jsonMessage ms)"
| "jsonValue Unsupported = Unsupported"
| "jsonMessage (Message role content) = Message (jsonString role) (jsonValue content)"

definition jsonMarshal :: "any \<Rightarrow> error + any" where
  "jsonMarshal v =
     (if encodable v then Inr (jsonValue v) else Inl (ErrorString ''json: unsupported type''))"

text \<open>
  The values that JSON carries as they are: every value can be encoded and every string,
  map keys included, is valid UTF-8.
\<close>

fun plain :: "any \<Rightarrow> bool" and plainMessage :: "Message \<Rightarrow> bool" where
  "plain (Str s) = ValidString s"
| "plain (Num n) = True"
| "plain (Bool b) = True"
| "plain Nil = True"
| "plain (Arr xs) = list_all plain xs"
| "plain (Obj kvs) = list_all (\<lambda>kv. ValidString (fst kv) \<and> plain (snd kv)) kvs"
| "plain (Msgs ms) = list_all plainMessage ms"
| "plain Unsupported = False"
| "plainMessage (Message role content) = (ValidString role \<and> plain content)"

section \<open>Providers (pkg/providers)\<close>

record ProviderConfig =
  Name :: string
  BaseURL :: string
  Options :: "(string \<times> any) list"

record BaseProvider =
  name :: string
  baseURL :: string

record OllamaProvider = BaseProvider +
  options :: "(string \<times> any) list"

definition NewOllama :: "ProviderConfig \<Rightarrow> error + OllamaProvider" where
  "NewOllama c =
     (let baseURL0 = BaseURL c;
          baseURL1 = (if \<not> HasSuffix baseURL0 ''/v1''
                      then TrimSuffix baseURL0 ''/'' @ ''/v1'' else baseURL0)
      in Inr \<lparr>name = ProviderConfig.Name c, baseURL = baseURL1, options = ProviderConfig.Options c\<rparr>)"

definition Ollama_Endpoint :: "OllamaProvider \<Rightarrow> Protocol \<Rightarrow> error + string" where
  "Ollama_Endpoint p proto =
     (let endpoints = [(Chat, ''/chat/completions''), (Vision, ''/chat/completions''),
                       (Tools, ''/chat/completions''), (Embeddings, ''/embeddings'')]
      in case map_of endpoints proto of
           None \<Rightarrow> Inl (ErrorString (''protocol '' @ proto @ '' not supported by Ollama''))
         | Some endpoint \<Rightarrow> Inr (baseURL p @ endpoint))"

section \<open>Marshalling (BaseProvider.Marshal)\<close>

text \<open>
  Message slices live in a store, so that a write through one slice header is seen through
  every header of the same backing array: \<open>slices h a\<close> is the content of the array at
  address \<open>a\<close>, \<open>nextAddr h\<close> the first address not yet allocated.
\<close>

type_synonym addr = nat

record heap =
  slices :: "addr \<Rightarrow> Message list"
  nextAddr :: addr

text \<open>\<^verbatim>\<open>make([]protocol.Message, n)\<close>: a fresh array of \<open>n\<close> zero messages.\<close>

definition makeSlice :: "heap \<Rightarrow> nat \<Rightarrow> addr \<times> heap" where
  "makeSlice h n =
     (nextAddr h,
      h\<lparr>slices := (slices h)(nextAddr h := replicate n (Message [] Nil)),
        nextAddr := Suc (nextAddr h)\<rparr>)"

text \<open>\<^verbatim>\<open>copy(dst, src)\<close> copies as many elements as the shorter slice has.\<close>

definition copySlice :: "heap \<Rightarrow> addr \<Rightarrow> addr \<Rightarrow> heap" where
  "copySlice h dst src =
     (let n = min (length (slices h dst)) (length (slices h src))
      in h\<lparr>slices := (slices h)(dst := take n (slices h src) @ drop n (slices h dst))\<rparr>)"

text \<open>\<^verbatim>\<open>s[i] = m\<close>, for an index within the slice.\<close>

definition storeIndex :: "heap \<Rightarrow> addr \<Rightarrow> nat \<Rightarrow> Message \<Rightarrow> heap" where
  "storeIndex h a i m = h\<lparr>slices := (slices h)(a := (slices h a)[i := m])\<rparr>"

record ChatData =
  Model :: string
  Messages :: addr
  Options :: "(string \<times> any) list"

record VisionData =
  Model :: string
  Messages :: addr
  Images :: "string list"
  VisionOptions :: "(string \<times> any) list option"
  Options :: "(string \<times> any) list"

record ToolDefinition =
  Name :: string
  Description :: string
  Parameters :: "(string \<times> any) list option"

text \<open>The field Tools of \<^verbatim>\<open>ToolsData\<close> is \<open>ToolDefs\<close> here (Tools is the protocol).\<close>

record ToolsData =
  Model :: string
  Messages :: addr
  ToolDefs :: "ToolDefinition list"
  Options :: "(string \<times> any) list"

record EmbeddingsData =
  Model :: string
  Input :: any
  Options :: "(string \<times> any) list"

text \<open>
  The \<^verbatim>\<open>data any\<close> argument of Marshal: a pointer to one of the four data structs, or
  a value of another type (its \<^verbatim>\<open>%T\<close> name).
\<close>

datatype data =
    ChatDataPtr ChatData
  | VisionDataPtr VisionData
  | ToolsDataPtr ToolsData
  | EmbeddingsDataPtr EmbeddingsData
  | OtherData string

fun typeName :: "data \<Rightarrow> string" where
  "typeName (ChatDataPtr d) = ''*providers.ChatData''"
| "typeName (VisionDataPtr d) = ''*providers.VisionData''"
| "typeName (ToolsDataPtr d) = ''*providers.ToolsData''"
| "typeName (EmbeddingsDataPtr d) = ''*providers.EmbeddingsData''"
| "typeName (OtherData t) = t"

fun marshalChat :: "heap \<Rightarrow> data \<Rightarrow> (error + any) \<times> heap" where
  "marshalChat h (ChatDataPtr d) =
     (let combined = AList.update ''model'' (Str (ChatData.Model d)) [];
          combined = AList.update ''messages'' (Msgs (slices h (ChatData.Messages d))) combined;
          combined = mapsCopy combined (ChatData.Options d)
      in (jsonMarshal (Obj combined), h))"
| "marshalChat h data = (Inl (ErrorString (''expected *ChatData, got '' @ typeName data)), h)"

text \<open>
  In \<open>marshalVision\<close> the index \<open>lastIdx\<close> is within both slices: the messages are
  not empty and the new slice is made with their length.
\<close>

fun marshalVision :: "heap \<Rightarrow> data \<Rightarrow> (error + any) \<times> heap" where
  "marshalVision h (VisionDataPtr d) =
     (if length (slices h (VisionData.Messages d)) = 0
      then (Inl (ErrorString ''messages cannot be empty for vision requests''), h)
      else if length (Images d) = 0
      then (Inl (ErrorString ''images cannot be empty for vision requests''), h)
      else
        (let lastIdx = length (slices h (VisionData.Messages d)) - 1;
             message = slices h (VisionData.Messages d) ! lastIdx
         in case Content message of
              Str textContent \<Rightarrow>
                (let content0 = [Obj [(''type'', Str ''text''), (''text'', Str textContent)]];
                     content = fold (\<lambda>imgURL content.
                         (let imageURL0 = [(''url'', Str imgURL)];
                              imageURL = (case VisionOptions d of
                                            Some visionOptions \<Rightarrow> mapsCopy imageURL0 visionOptions
                                          | None \<Rightarrow> imageURL0)
                          in content @ [Obj [(''type'', Str ''image_url''),
                                             (''image_url'', Obj imageURL)]]))
                       (Images d) content0;
                     (transformedMessages, h1) = makeSlice h (length (slices h (VisionData.Messages d)));
                     h2 = copySlice h1 transformedMessages (VisionData.Messages d);
                     h3 = storeIndex h2 transformedMessages lastIdx (Message (Role message) (Arr content));
                     combined = AList.update ''model'' (Str (VisionData.Model d)) [];
                     combined = AList.update ''messages'' (Msgs (slices h3 transformedMessages))
                                  combined;
                     combined = mapsCopy combined (VisionData.Options d)
                 in (jsonMarshal (Obj combined), h3))
            | _ \<Rightarrow>
                (Inl (ErrorString ''message content must be a string for vision transformation''),
                 h)))"
| "marshalVision h data = (Inl (ErrorString (''expected *VisionData, got '' @ typeName data)), h)"

fun marshalTools :: "heap \<Rightarrow> data \<Rightarrow> (error + any) \<times> heap" where
  "marshalTools h (ToolsDataPtr d) =
     (let combined = AList.update ''model'' (Str (ToolsData.Model d)) [];
          combined = AList.update ''messages'' (Msgs (slices h (ToolsData.Messages d))) combined;
          openAITools = map (\<lambda>tool.
              Obj [(''type'', Str ''function''),
                   (''function'', Obj [(''name'', Str (Name tool)),
                                       (''description'', Str (Description tool)),
                                       (''parameters'', (case Parameters tool of
                                                           None \<Rightarrow> Nil
                                                         | Some ps \<Rightarrow> Obj ps))])])
            (ToolDefs d);
          combined = AList.update ''tools'' (Arr openAITools) combined;
          combined = mapsCopy combined (ToolsData.Options d)
      in (jsonMarshal (Obj combined), h))"
| "marshalTools h data = (Inl (ErrorString (''expected *ToolsData, got '' @ typeName data)), h)"

fun marshalEmbeddings :: "heap \<Rightarrow> data \<Rightarrow> (error + any) \<times> heap" where
  "marshalEmbeddings h (EmbeddingsDataPtr d) =
     (let combined = AList.update ''model'' (Str (EmbeddingsData.Model d)) [];
          combined = AList.update ''input'' (Input d) combined;
          combined = mapsCopy combined (EmbeddingsData.Options d)
      in (jsonMarshal (Obj combined), h))"
| "marshalEmbeddings h data =
     (Inl (ErrorString (''expected *EmbeddingsData, got '' @ typeName data)), h)"

definition Marshal :: "heap \<Rightarrow> Protocol \<Rightarrow> data \<Rightarrow> (error + any) \<times> heap" where
  "Marshal h proto data =
     (if proto = Chat then marshalChat h data
      else if proto = Vision then marshalVision h data
      else if proto = Tools then marshalTools h data
      else if proto = Embeddings then marshalEmbeddings h data
      else (Inl (ErrorString (''unsupported protocol: '' @ proto)), h))"

text \<open>
  A store with one message slice at address 0, and a vision payload on it with two images.
\<close>

definition exampleHeap :: "Message list \<Rightarrow> heap" where
  "exampleHeap ms = \<lparr>slices = (\<lambda>a. if a = 0 then ms else []), nextAddr = 1\<rparr>"

definition exampleVision :: "(string \<times> any) list \<Rightarrow> VisionData" where
  "exampleVision opts =
     \<lparr>VisionData.Model = ''gpt-4-vision'', VisionData.Messages = 0,
      Images = [''https://example.com/a.jpg'', ''https://example.com/b.jpg''],
      VisionOptions = Some [(''detail'', Str ''high'')], VisionData.Options = opts\<rparr>"

section \<open>Streaming responses (provider decode workers)\<close>

text \<open>
  \<^verbatim>\<open>strings.TrimSpace\<close> removes leading and trailing white space as Unicode defines
  it. On the bytes of a string these are the six ASCII characters and the UTF-8 encodings
  of U+0085, U+00A0, U+1680, U+2000 to U+200A, U+2028, U+2029, U+202F, U+205F and U+3000.
\<close>

definition whiteSpace :: "string list" where
  "whiteSpace =
     [[CHR 0x09], [CHR 0x0A], [CHR 0x0B], [CHR 0x0C], [CHR 0x0D], [CHR 0x20],
      [CHR 0xC2, CHR 0x85], [CHR 0xC2, CHR 0xA0], [CHR 0xE1, CHR 0x9A, CHR 0x80],
      [CHR 0xE2, CHR 0x80, CHR 0x80], [CHR 0xE2, CHR 0x80, CHR 0x81],
      [CHR 0xE2, CHR 0x80, CHR 0x82], [CHR 0xE2, CHR 0x80, CHR 0x83],
      [CHR 0xE2, CHR 0x80, CHR 0x84], [CHR 0xE2, CHR 0x80, CHR 0x85],
      [CHR 0xE2, CHR 0x80, CHR 0x86], [CHR 0xE2, CHR 0x80, CHR 0x87],
      [CHR 0xE2, CHR 0x80, CHR 0x88], [CHR 0xE2, CHR 0x80, CHR 0x89],
      [CHR 0xE2, CHR 0x80, CHR 0x8A], [CHR 0xE2, CHR 0x80, CHR 0xA8],
      [CHR 0xE2, CHR 0x80, CHR 0xA9], [CHR 0xE2, CHR 0x80, CHR 0xAF],
      [CHR 0xE2, CHR 0x81, CHR 0x9F], [CHR 0xE3, CHR 0x80, CHR 0x80]]"

text \<open>The width of the first of the given byte sequences that the string starts with.\<close>

fun leadingWidth :: "string list \<Rightarrow> string \<Rightarrow> nat" where
  "leadingWidth [] s = 0"
| "leadingWidth (r # rs) s = (if HasPrefix s r then length r else leadingWidth rs s)"

lemma leadingWidth_le: "leadingWidth rs s \<le> length s"
  by (induction rs) (auto simp: HasPrefix_def)

function trimLeft :: "string list \<Rightarrow> string \<Rightarrow> string" where
  "trimLeft rs s =
     (if leadingWidth rs s = 0 then s else trimLeft rs (drop (leadingWidth rs s) s))"
  by pat_completeness auto
termination
proof (relation "measure (\<lambda>(rs, s). length s)")
  show "wf (measure (\<lambda>(rs, s). length s))" by simp
next
  fix rs :: "string list" and s :: string
  assume "leadingWidth rs s \<noteq> 0"
  moreover have "leadingWidth rs s \<le> length s" by (rule leadingWidth_le)
  ultimately show "((rs, drop (leadingWidth rs s) s), (rs, s)) \<in> measure (\<lambda>(rs, s). length s)"
    by simp
qed

declare trimLeft.simps [simp del]

definition TrimSpace :: "string \<Rightarrow> string" where
  "TrimSpace s = rev (trimLeft (map rev whiteSpace) (rev (trimLeft whiteSpace s)))"

text \<open>
  \<^verbatim>\<open>reader.ReadString('\n')\<close> on the bytes still to come: the line with its
  delimiter and the rest, or \<open>None\<close> when no delimiter is left; the reader then returns
  what it has read together with the error that ends the body.
\<close>

fun ReadString :: "string \<Rightarrow> (string \<times> string) option" where
  "ReadString [] = None"
| "ReadString (c # cs) =
     (if c = CHR 0x0A then Some ([c], cs)
      else (case ReadString cs of None \<Rightarrow> None | Some (line, rest) \<Rightarrow> Some (c # line, rest)))"

lemma ReadString_shorter: "ReadString body = Some (line, rest) \<Longrightarrow> length rest < length body"
  by (induction body arbitrary: line rest) (auto split: if_splits option.splits)

text \<open>
  \<^verbatim>\<open>json.Unmarshal\<close> into a fresh \<^verbatim>\<open>StreamingChunk\<close> is a parameter of the
  parsing functions (pkg/response).
\<close>

definition ParseChatStreamChunk ::
  "(string \<Rightarrow> error + StreamingChunk) \<Rightarrow> string \<Rightarrow> error + StreamingChunk" where
  "ParseChatStreamChunk Unmarshal data =
     (case Unmarshal data of
        Inl err \<Rightarrow> Inl (Wrapped ''failed to parse streaming chunk: '' (Some err))
      | Inr chunk \<Rightarrow> Inr chunk)"

definition ParseVisionStreamChunk ::
  "(string \<Rightarrow> error + StreamingChunk) \<Rightarrow> string \<Rightarrow> error + StreamingChunk" where
  "ParseVisionStreamChunk Unmarshal data = ParseChatStreamChunk Unmarshal data"

definition ParseToolsStreamChunk ::
  "(string \<Rightarrow> error + StreamingChunk) \<Rightarrow> string \<Rightarrow> error + StreamingChunk" where
  "ParseToolsStreamChunk Unmarshal data =
     (case Unmarshal data of
        Inl err \<Rightarrow> Inl (Wrapped ''failed to parse tools streaming chunk: '' (Some err))
      | Inr chunk \<Rightarrow> Inr chunk)"

definition ParseStreamChunk ::
  "(string \<Rightarrow> error + StreamingChunk) \<Rightarrow> Protocol \<Rightarrow> string \<Rightarrow> error + StreamingChunk" where
  "ParseStreamChunk Unmarshal p data =
     (if p = Chat then ParseChatStreamChunk Unmarshal data
      else if p = Vision then ParseVisionStreamChunk Unmarshal data
      else if p = Tools then ParseToolsStreamChunk Unmarshal data
      else if p = Embeddings
      then Inl (ErrorString (''protocol '' @ p @ '' does not support streaming''))
      else Inl (ErrorString (''unsupported protocol: '' @ p)))"

text \<open>\<^verbatim>\<open>&response.StreamingChunk{Error: err}\<close>\<close>

definition errorChunk :: "error \<Rightarrow> StreamingChunk" where
  "errorChunk err =
     \<lparr>ID = [], Object = [], Created = 0, StreamingChunk.Model = [], Choices = [],
      Error = Some err\<rparr>"

text \<open>
  The decode worker of a provider, from the bytes still to come (\<open>body\<close>) and the error
  that ends them (\<open>final\<close>, \<open>None\<close> for \<^verbatim>\<open>io.EOF\<close>). Its result is the sequence
  of chunks it sends before it closes the channel; \<open>n\<close> counts the sends so far and
  \<open>cancelled n\<close> tells that the \<^verbatim>\<open>select\<close> of send \<open>n\<close> takes
  \<^verbatim>\<open><-ctx.Done()\<close>.
\<close>

function Ollama_worker ::
  "(string \<Rightarrow> error + StreamingChunk) \<Rightarrow> (nat \<Rightarrow> bool) \<Rightarrow> Protocol \<Rightarrow> error option \<Rightarrow> nat
     \<Rightarrow> string \<Rightarrow> StreamingChunk list" where
  "Ollama_worker Unmarshal cancelled proto final n body =
     (case ReadString body of
        None \<Rightarrow>
          (case final of
             None \<Rightarrow> []
           | Some err \<Rightarrow> if cancelled n then [] else [errorChunk err])
      | Some (line0, rest) \<Rightarrow>
          (let line = TrimSpace line0 in
           if line = [] then Ollama_worker Unmarshal cancelled proto final n rest
           else if line = ''data: [DONE]'' then []
           else
             (let line = (case CutPrefix line ''data: '' of
                            (after, ok) \<Rightarrow> if ok then after else line)
              in case ParseStreamChunk Unmarshal proto line of
                   Inl err \<Rightarrow> Ollama_worker Unmarshal cancelled proto final n rest
                 | Inr chunk \<Rightarrow>
                     if cancelled n then []
                     else chunk # Ollama_worker Unmarshal cancelled proto final (Suc n) rest)))"
  by pat_completeness auto
termination
  by (relation "measure (\<lambda>(Unmarshal, cancelled, proto, final, n, body). length body)")
     (auto dest: ReadString_shorter)

declare Ollama_worker.simps [simp del]

definition Ollama_ProcessStreamResponse ::
  "(string \<Rightarrow> error + StreamingChunk) \<Rightarrow> (nat \<Rightarrow> bool) \<Rightarrow> int \<Rightarrow> body \<Rightarrow> Protocol
     \<Rightarrow> error + item list" where
  "Ollama_ProcessStreamResponse Unmarshal cancelled StatusCode respBody proto =
     (if StatusCode \<noteq> 200
      then Inl (ErrorString (''request failed with status '' @ string_of_int StatusCode))
      else Inr (map IsChunk
                  (Ollama_worker Unmarshal cancelled proto (snd respBody) 0 (fst respBody))))"

function Azure_worker ::
  "(string \<Rightarrow> error + StreamingChunk) \<Rightarrow> (nat \<Rightarrow> bool) \<Rightarrow> Protocol \<Rightarrow> error option \<Rightarrow> nat
     \<Rightarrow> string \<Rightarrow> StreamingChunk list" where
  "Azure_worker Unmarshal cancelled proto final n body =
     (case ReadString body of
        None \<Rightarrow>
          (case final of
             None \<Rightarrow> []
           | Some err \<Rightarrow> if cancelled n then [] else [errorChunk err])
      | Some (line0, rest) \<Rightarrow>
          (let line = TrimSpace line0 in
           if line = [] then Azure_worker Unmarshal cancelled proto final n rest
           else if \<not> HasPrefix line ''data: ''
           then Azure_worker Unmarshal cancelled proto final n rest
           else
             (let data = TrimPrefix line ''data: '' in
              if data = ''[DONE]'' then []
              else case ParseStreamChunk Unmarshal proto data of
                     Inl err \<Rightarrow> Azure_worker Unmarshal cancelled proto final n rest
                   | Inr chunk \<Rightarrow>
                       if cancelled n then []
                       else chunk # Azure_worker Unmarshal cancelled proto final (Suc n) rest)))"
  by pat_completeness auto
termination
  by (relation "measure (\<lambda>(Unmarshal, cancelled, proto, final, n, body). length body)")
     (auto dest: ReadString_shorter)

declare Azure_worker.simps [simp del]

definition Azure_ProcessStreamResponse ::
  "(string \<Rightarrow> error + StreamingChunk) \<Rightarrow> (nat \<Rightarrow> bool) \<Rightarrow> int \<Rightarrow> body \<Rightarrow> Protocol
     \<Rightarrow> error + item list" where
  "Azure_ProcessStreamResponse Unmarshal cancelled StatusCode respBody proto =
     (if StatusCode \<noteq> 200
      then Inl (ErrorString (''request failed with status '' @ string_of_int StatusCode))
      else Inr (map IsChunk
                  (Azure_worker Unmarshal cancelled proto (snd respBody) 0 (fst respBody))))"

text \<open>
  A body made of lines, each followed by the delimiter; and a stand-in for
  \<^verbatim>\<open>json.Unmarshal\<close> on concrete runs: it decodes the objects of the form
  \<^verbatim>\<open>{"id":"..."}\<close> into the chunk with that ID and every other field zero, and
  rejects every other text.
\<close>

definition bodyOf :: "string list \<Rightarrow> string" where
  "bodyOf lines = concat (map (\<lambda>l. l @ [CHR 0x0A]) lines)"

definition exampleChunk :: "string \<Rightarrow> StreamingChunk" where
  "exampleChunk chunkID =
     \<lparr>ID = chunkID, Object = [], Created = 0, StreamingChunk.Model = [], Choices = [],
      Error = None\<rparr>"

definition exampleUnmarshal :: "string \<Rightarrow> error + StreamingChunk" where
  \<open>exampleUnmarshal data =
     (if HasPrefix data ''{"id":"'' \<and> HasSuffix data ''"}'' \<and> 9 \<le> length data
      then Inr (exampleChunk (take (length data - 9) (drop 7 data)))
      else Inl (ErrorString ''invalid character''))\<close>

text \<open>
  What a worker makes of one line that is not the termination marker: the chunk it sends,
  or \<open>None\<close> when it skips the line (blank, without the prefix the Azure worker asks
  for, or failing to decode).
\<close>

definition Ollama_decode ::
  "(string \<Rightarrow> error + StreamingChunk) \<Rightarrow> Protocol \<Rightarrow> string \<Rightarrow> StreamingChunk option" where
  "Ollama_decode Unmarshal proto l =
     (let line = TrimSpace (l @ [CHR 0x0A]) in
      if line = [] then None
      else (let line = (case CutPrefix line ''data: '' of
                          (after, ok) \<Rightarrow> if ok then after else line)
            in case ParseStreamChunk Unmarshal proto line of
                 Inl err \<Rightarrow> None
               | Inr chunk \<Rightarrow> Some chunk))"

definition Azure_decode ::
  "(string \<Rightarrow> error + StreamingChunk) \<Rightarrow> Protocol \<Rightarrow> string \<Rightarrow> StreamingChunk option" where
  "Azure_decode Unmarshal proto l =
     (let line = TrimSpace (l @ [CHR 0x0A]) in
      if line = [] then None
      else if \<not> HasPrefix line ''data: '' then None
      else (case ParseStreamChunk Unmarshal proto (TrimPrefix line ''data: '') of
              Inl err \<Rightarrow> None
            | Inr chunk \<Rightarrow> Some chunk))"

text \<open>The chunk that ends a stream whose body ends in a read error.\<close>

definition finalChunk :: "error option \<Rightarrow> StreamingChunk list" where
  "finalChunk final = (case final of None \<Rightarrow> [] | Some err \<Rightarrow> [errorChunk err])"

section \<open>Properties of the backoff\<close>

lemma wrap64_id: "- (2 ^ 63) \<le> x \<Longrightarrow> x < 2 ^ 63 \<Longrightarrow> wrap64 x = x"
  unfolding wrap64_def by (simp add: mod_pos_pos_trivial)

lemma shiftl_one:
  assumes k: "0 \<le> k"
  shows "shiftl 1 (nat (min k 10 mod 2 ^ 64)) = 2 ^ nat (min k 10)"
proof -
  let ?m = "min k 10"
  have m: "0 \<le> ?m" "?m \<le> 10" using k by auto
  have mm: "?m mod 2 ^ 64 = ?m" using m by (simp add: mod_pos_pos_trivial)
  have "nat ?m \<le> 10" using m by simp
  then have "(2::int) ^ nat ?m \<le> 2 ^ 10" by (intro power_increasing) auto
  then have le: "(2::int) ^ nat ?m \<le> 1024" by simp
  define p :: int where "p = 2 ^ nat ?m"
  have "0 \<le> p" "p \<le> 1024" using le unfolding p_def by simp_all
  then have "- (2 ^ 63) \<le> p" "p < 2 ^ 63" by simp_all
  then have "wrap64 p = p" by (rule wrap64_id)
  then have "wrap64 (2 ^ nat ?m) = 2 ^ nat ?m" unfolding p_def .
  moreover have "\<not> 64 \<le> nat ?m" using m by simp
  ultimately show ?thesis using mm unfolding shiftl_def by simp
qed

lemma delay_exponential:
  assumes "0 \<le> k" "- (2 ^ 63) \<le> exponential cfg k" "exponential cfg k < 2 ^ 63"
  shows "wrap64 (InitialBackoff cfg * shiftl 1 (nat (min k 10 mod 2 ^ 64))) = exponential cfg k"
proof -
  have "InitialBackoff cfg * shiftl 1 (nat (min k 10 mod 2 ^ 64)) = exponential cfg k"
    unfolding exponential_def shiftl_one[OF assms(1)] ..
  then show ?thesis using assms(2,3) by (simp only: wrap64_id)
qed

lemma calculateBackoff_plain:
  assumes "0 \<le> k" "- (2 ^ 63) \<le> exponential cfg k" "exponential cfg k < 2 ^ 63" "\<not> Jitter cfg"
  shows "calculateBackoff k cfg r = Some (min (exponential cfg k) (MaxBackoff cfg))"
  unfolding calculateBackoff_def Let_def delay_exponential[OF assms(1-3)]
  using assms(4) by simp

lemma calculateBackoff_jitter_value:
  assumes k: "0 \<le> k" and lo: "4 \<le> exponential cfg k"
    and hi: "exponential cfg k + exponential cfg k div 4 < 2 ^ 63" and j: "Jitter cfg"
  shows "calculateBackoff k cfg r =
           Some (min (exponential cfg k + r mod (2 * (exponential cfg k div 4))
                        - exponential cfg k div 4)
                     (MaxBackoff cfg))"
proof -
  define b where "b = exponential cfg k"
  define q where "q = b div 4"
  have q: "1 \<le> q" "q \<le> b" "4 * q \<le> b" using lo unfolding q_def b_def by auto
  have hi': "b + q < 2 ^ 63" using hi unfolding q_def b_def .
  have d: "wrap64 (InitialBackoff cfg * shiftl 1 (nat (min k 10 mod 2 ^ 64))) = b"
    unfolding b_def using k lo hi by (intro delay_exponential) linarith+
  have qt: "quot b 4 = q" using q unfolding quot_def q_def by (simp add: sgn_if)
  have n: "wrap64 (q * 2) = 2 * q" using q hi' by (simp add: wrap64_id)
  define n where "n = r mod (2 * q)"
  have nb: "0 \<le> n" "n < 2 * q" using q unfolding n_def by auto
  have j1: "wrap64 (n - q) = n - q" using nb q hi' by (simp add: wrap64_id)
  have j2: "wrap64 (b + (n - q)) = b + n - q" using nb q hi' by (simp add: wrap64_id)
  show ?thesis
    unfolding calculateBackoff_def Let_def d qt n Int63n_def
    unfolding b_def[symmetric] q_def[symmetric] n_def[symmetric]
    using j q j1 j2 by simp
qed

text \<open>
  Claim C3, as the code has it. For an attempt index \<open>k \<ge> 0\<close>: with jitter disabled
  and the product \<open>initialBackoff * 2^min(k,10)\<close> inside the int64 range, the delay is
  exactly \<open>min(initialBackoff * 2^min(k,10), maxBackoff)\<close>; with jitter enabled, a
  product of at least 4 (so that the jitter range is positive) and no int64 overflow of
  the jittered sum, the delay lies in
  \<open>[min(0.75 * initialBackoff * 2^min(k,10), maxBackoff), maxBackoff]\<close>.
\<close>

theorem C3_calculateBackoff_delay:
  assumes "0 \<le> k"
  shows "(\<not> Jitter cfg \<and> - (2 ^ 63) \<le> exponential cfg k \<and> exponential cfg k < 2 ^ 63 \<longrightarrow>
            calculateBackoff k cfg r = Some (min (exponential cfg k) (MaxBackoff cfg)))
       \<and> (Jitter cfg \<and> 4 \<le> exponential cfg k
            \<and> exponential cfg k + exponential cfg k div 4 < 2 ^ 63 \<longrightarrow>
            (\<exists>d. calculateBackoff k cfg r = Some d
               \<and> min (real_of_int (exponential cfg k) * 0.75) (real_of_int (MaxBackoff cfg))
                   \<le> real_of_int d
               \<and> d \<le> MaxBackoff cfg))"
proof (intro conjI impI)
  assume "\<not> Jitter cfg \<and> - (2 ^ 63) \<le> exponential cfg k \<and> exponential cfg k < 2 ^ 63"
  then show "calculateBackoff k cfg r = Some (min (exponential cfg k) (MaxBackoff cfg))"
    using assms calculateBackoff_plain by blast
next
  assume h: "Jitter cfg \<and> 4 \<le> exponential cfg k
               \<and> exponential cfg k + exponential cfg k div 4 < 2 ^ 63"
  define b where "b = exponential cfg k"
  define q where "q = b div 4"
  define n where "n = r mod (2 * q)"
  have q: "1 \<le> q" "4 * q \<le> b" using h unfolding q_def b_def by auto
  have nb: "0 \<le> n" using q unfolding n_def by auto
  have v: "calculateBackoff k cfg r = Some (min (b + n - q) (MaxBackoff cfg))"
    using calculateBackoff_jitter_value[OF assms, of cfg r] h
    unfolding b_def q_def n_def by simp
  have "real_of_int b * 0.75 \<le> real_of_int (b + n - q)"
  proof -
    have "3 * b \<le> 4 * (b + n - q)" using q(2) nb by (simp add: algebra_simps)
    then have "real_of_int (3 * b) \<le> real_of_int (4 * (b + n - q))"
      by (rule of_int_le_iff[THEN iffD2])
    then show ?thesis by simp
  qed
  then have "min (real_of_int b * 0.75) (real_of_int (MaxBackoff cfg))
               \<le> real_of_int (min (b + n - q) (MaxBackoff cfg))"
    by (simp add: min_def)
  then show "\<exists>d. calculateBackoff k cfg r = Some d
               \<and> min (real_of_int (exponential cfg k) * 0.75) (real_of_int (MaxBackoff cfg))
                   \<le> real_of_int d
               \<and> d \<le> MaxBackoff cfg"
    using v unfolding b_def by simp
qed

theorem C3_calculateBackoff_delay_witness:
  "calculateBackoff 2 \<lparr>MaxRetries = 3, InitialBackoff = 1000000000,
                        MaxBackoff = 30000000000, Jitter = False\<rparr> 0 = Some 4000000000
   \<and> (\<exists>d. calculateBackoff 2 \<lparr>MaxRetries = 3, InitialBackoff = 1000000000,
                               MaxBackoff = 30000000000, Jitter = True\<rparr> 123456789 = Some d
          \<and> 3000000000 \<le> real_of_int d \<and> d \<le> 30000000000)"
  using C3_calculateBackoff_delay [of 2 "\<lparr>MaxRetries = 3, InitialBackoff = 1000000000,
                        MaxBackoff = 30000000000, Jitter = False\<rparr>" 0]
        C3_calculateBackoff_delay [of 2 "\<lparr>MaxRetries = 3, InitialBackoff = 1000000000,
                        MaxBackoff = 30000000000, Jitter = True\<rparr>" 123456789]
  by (simp add: exponential_def)

text \<open>
  Claim C3 as stated fails at three inputs. With the default configuration (1s, 30s,
  jitter on) and attempt 6 the delay is the cap of 30s, below 0.75 * 64s = 48s. With jitter
  off and an initial backoff of \<open>2^62\<close> ns, attempt 1 overflows int64 and the delay is
  \<open>-2^63\<close>, not \<open>min(2^63, maxBackoff)\<close>. With jitter on and an initial backoff of 0
  the random draw panics and there is no delay at all.
\<close>

theorem C3_counterexample:
  "calculateBackoff 6 \<lparr>MaxRetries = 3, InitialBackoff = 1000000000,
                        MaxBackoff = 30000000000, Jitter = True\<rparr> 0 = Some 30000000000
   \<and> \<not> (real_of_int (exponential \<lparr>MaxRetries = 3, InitialBackoff = 1000000000,
                        MaxBackoff = 30000000000, Jitter = True\<rparr> 6) * 0.75
          \<le> real_of_int 30000000000)
   \<and> calculateBackoff 1 \<lparr>MaxRetries = 3, InitialBackoff = 2 ^ 62,
                        MaxBackoff = 2 ^ 63 - 1, Jitter = False\<rparr> 0 = Some (- (2 ^ 63))
   \<and> min (exponential \<lparr>MaxRetries = 3, InitialBackoff = 2 ^ 62,
                        MaxBackoff = 2 ^ 63 - 1, Jitter = False\<rparr> 1) (2 ^ 63 - 1) = 2 ^ 63 - 1
   \<and> calculateBackoff 0 \<lparr>MaxRetries = 3, InitialBackoff = 0,
                        MaxBackoff = 30000000000, Jitter = True\<rparr> 0 = None"
proof (intro conjI)
  show "calculateBackoff 6 \<lparr>MaxRetries = 3, InitialBackoff = 1000000000,
          MaxBackoff = 30000000000, Jitter = True\<rparr> 0 = Some 30000000000"
    by code_simp
  show "\<not> (real_of_int (exponential \<lparr>MaxRetries = 3, InitialBackoff = 1000000000,
          MaxBackoff = 30000000000, Jitter = True\<rparr> 6) * 0.75 \<le> real_of_int 30000000000)"
    by (simp add: exponential_def)
  show "calculateBackoff 1 \<lparr>MaxRetries = 3, InitialBackoff = 2 ^ 62,
          MaxBackoff = 2 ^ 63 - 1, Jitter = False\<rparr> 0 = Some (- (2 ^ 63))"
    by code_simp
  show "min (exponential \<lparr>MaxRetries = 3, InitialBackoff = 2 ^ 62,
          MaxBackoff = 2 ^ 63 - 1, Jitter = False\<rparr> 1) (2 ^ 63 - 1) = 2 ^ 63 - 1"
    by (simp add: exponential_def)
  show "calculateBackoff 0 \<lparr>MaxRetries = 3, InitialBackoff = 0,
          MaxBackoff = 30000000000, Jitter = True\<rparr> 0 = None"
    by code_simp
qed

section \<open>Properties of the retry loop\<close>

lemma doWithRetry_loop_exceeded:
  "MaxRetries cfg < attempt \<Longrightarrow>
   doWithRetry_loop ctx cfg operation attempt lastErr s n waits =
     Some (Return (Inl (Wrapped (''max retries ('' @ string_of_int (MaxRetries cfg)
                                   @ '') exceeded: '') lastErr)), s, n, waits)"
  by (subst doWithRetry_loop.simps) simp

lemma doWithRetry_loop_exhaust:
  fixes operation :: "'s \<Rightarrow> (error + 'a) \<times> 's"
  assumes fail: "\<And>s. \<exists>err. fst (operation s) = Inl err \<and> isRetryableError (Some err)"
    and ctx: "\<And>i. ctxErr ctx i = None" "\<And>i. ctxDone ctx i = None"
    and nopanic: "\<And>i. 0 \<le> i \<Longrightarrow> i < MaxRetries cfg \<Longrightarrow>
                    calculateBackoff i cfg (draw ctx i) \<noteq> None"
    and range: "MaxRetries cfg < 2 ^ 63 - 1"
    and a: "0 \<le> a" "a \<le> MaxRetries cfg" "k = nat (MaxRetries cfg - a)"
  shows "\<exists>err ws.
           doWithRetry_loop ctx cfg operation a lastErr s n waits =
             Some (Return (Inl (Wrapped (''max retries ('' @ string_of_int (MaxRetries cfg)
                                           @ '') exceeded: '') (Some err))),
                   (stateAfter operation ^^ (k + 1)) s, n + k + 1, waits @ ws)
         \<and> length ws = k
         \<and> fst (operation ((stateAfter operation ^^ k) s)) = Inl err"
  using a
proof (induction k arbitrary: a lastErr s n waits)
  case 0
  then have aN: "a = MaxRetries cfg" by simp
  obtain err where err: "fst (operation s) = Inl err" "isRetryableError (Some err)"
    using fail by blast
  obtain s' where s': "s' = stateAfter operation s" by simp
  have op: "operation s = (Inl err, s')" using err(1) s' unfolding stateAfter_def by (metis prod.collapse)
  have w: "wrap64 (a + 1) = a + 1"
    using 0(1) range aN by (intro wrap64_id) linarith+
  have "doWithRetry_loop ctx cfg operation a lastErr s n waits =
          doWithRetry_loop ctx cfg operation (a + 1) (Some err) s' (Suc n) waits"
    by (subst doWithRetry_loop.simps) (simp add: aN ctx op err(2) w[unfolded aN] del: isRetryableError.simps)
  also have "\<dots> = Some (Return (Inl (Wrapped (''max retries ('' @ string_of_int (MaxRetries cfg)
                                   @ '') exceeded: '') (Some err))), s', Suc n, waits)"
    by (rule doWithRetry_loop_exceeded) (simp add: aN)
  finally show ?case using err(1) s' by simp
next
  case (Suc k)
  then have aN: "a < MaxRetries cfg" by linarith
  obtain err where err: "fst (operation s) = Inl err" "isRetryableError (Some err)"
    using fail by blast
  obtain s' where s': "s' = stateAfter operation s" by simp
  have op: "operation s = (Inl err, s')" using err(1) s' unfolding stateAfter_def by (metis prod.collapse)
  have w: "wrap64 (a + 1) = a + 1"
    using Suc.prems(1) range aN by (intro wrap64_id) linarith+
  obtain delay where delay: "calculateBackoff a cfg (draw ctx a) = Some delay"
    using nopanic[OF Suc.prems(1) aN] by blast
  have step: "doWithRetry_loop ctx cfg operation a lastErr s n waits =
          doWithRetry_loop ctx cfg operation (a + 1) (Some err) s' (Suc n)
            (waits @ [delay])"
    using aN
    by (subst doWithRetry_loop.simps) (simp add: ctx op err(2) w delay del: isRetryableError.simps)
  have k: "k = nat (MaxRetries cfg - (a + 1))" using Suc.prems by linarith
  obtain err' ws where IH:
    "doWithRetry_loop ctx cfg operation (a + 1) (Some err) s' (Suc n)
       (waits @ [delay]) =
       Some (Return (Inl (Wrapped (''max retries ('' @ string_of_int (MaxRetries cfg)
                                           @ '') exceeded: '') (Some err'))),
             (stateAfter operation ^^ (k + 1)) s', Suc n + k + 1,
             (waits @ [delay]) @ ws)"
    "length ws = k"
    "fst (operation ((stateAfter operation ^^ k) s')) = Inl err'"
    using Suc.IH[of "a + 1" "Some err" s' "Suc n" "waits @ [delay]"] Suc.prems(1) aN k
    by auto
  show ?case
    apply (rule exI[of _ err'], rule exI[of _ "delay # ws"])
    using IH step s' by (simp add: funpow_Suc_right del: funpow.simps)
qed

section \<open>Properties of the execution client\<close>

lemmas run_simps = Execute_def doWithRetry_def doWithRetry_loop.simps execute_def
  exampleConfig_def exampleWorld_def exampleRequest_def exampleProvider_def background_def
  New_def setHealthy_def Chat_def errorsIs_def errorsAs_def calculateBackoff_def wrap64_def
  shiftl_def quot_def Int63n_def Let_def string_of_int_def digit_def

lemma isRetryableError_HTTPStatusError:
  "isRetryableError (Some (HTTPStatusError code status b))
     = (code = 429 \<or> code = 502 \<or> code = 503 \<or> code = 504)"
  by (simp add: errorsIs_def errorsAs_def)

lemma isRetryableError_context:
  "errorsIs err Canceled \<or> errorsIs err DeadlineExceeded \<Longrightarrow> \<not> isRetryableError (Some err)"
  by simp

lemma execute_status:
  assumes "reqMarshal req = Inr body"
    and "PrepareRequest (reqProvider req) (reqProtocol req) body (reqHeaders req) = Inr preq"
    and "NewRequestWithContext w (URL preq) = None"
    and "Do w (sent c) (preq\<lparr>Headers := SetHeaders (reqProvider req) (Headers preq)\<rparr>)
           = Response code status rb"
    and "code \<noteq> 200"
  shows "execute w req c
           = (Inl (HTTPStatusError code status (fst rb)), \<lparr>healthy = False, sent = Suc (sent c)\<rparr>)"
  using assms by (simp add: execute_def Let_def setHealthy_def)

lemma after_execute_status:
  assumes "reqMarshal req = Inr body"
    and "PrepareRequest (reqProvider req) (reqProtocol req) body (reqHeaders req) = Inr preq"
    and "NewRequestWithContext w (URL preq) = None"
    and "\<And>n. \<exists>code status rb.
           Do w n (preq\<lparr>Headers := SetHeaders (reqProvider req) (Headers preq)\<rparr>)
             = Response code status rb \<and> code \<noteq> 200"
  shows "(stateAfter (execute w req) ^^ Suc k) c = \<lparr>healthy = False, sent = sent c + Suc k\<rparr>"
proof (induction k)
  case 0
  obtain code status rb where
    "Do w (sent c) (preq\<lparr>Headers := SetHeaders (reqProvider req) (Headers preq)\<rparr>)
       = Response code status rb" "code \<noteq> 200"
    using assms(4) by blast
  then show ?case
    using execute_status[OF assms(1-3)] by (simp add: stateAfter_def)
next
  case (Suc k)
  let ?c = "\<lparr>healthy = False, sent = sent c + Suc k\<rparr>"
  obtain code status rb where
    "Do w (sent ?c) (preq\<lparr>Headers := SetHeaders (reqProvider req) (Headers preq)\<rparr>)
       = Response code status rb" "code \<noteq> 200"
    using assms(4) by blast
  then have "stateAfter (execute w req) ?c = \<lparr>healthy = False, sent = Suc (sent ?c)\<rparr>"
    using execute_status[OF assms(1-3), of ?c] by (simp add: stateAfter_def)
  then show ?case using Suc.IH by simp
qed

text \<open>
  Claim C1, as the code has it. A request is marshalled and prepared without error and
  every call of the transport answers with a status of 429, 502, 503 or 504. With
  \<open>max_retries = N\<close>, \<open>0 \<le> N\<close> below the largest int, a context that is cancelled
  neither before an attempt nor during a backoff, and backoff computations that do not
  panic, Execute sends exactly \<open>N + 1\<close> requests (\<open>N + 1\<close> invocations of the
  operation, \<open>N\<close> waits in between) and returns the error of the last attempt wrapped
  as \<^verbatim>\<open>max retries (N) exceeded: ...\<close>.
\<close>

theorem C1_Execute_retries_exhausted:
  assumes marshal: "reqMarshal req = Inr body"
    and prepare: "PrepareRequest (reqProvider req) (reqProtocol req) body (reqHeaders req) = Inr preq"
    and create: "NewRequestWithContext w (URL preq) = None"
    and httpReq: "httpReq = preq\<lparr>Headers := SetHeaders (reqProvider req) (Headers preq)\<rparr>"
    and status: "\<And>n. \<exists>code status rb. Do w n httpReq = Response code status rb
                    \<and> (code = 429 \<or> code = 502 \<or> code = 503 \<or> code = 504)"
    and ctx: "\<And>i. ctxErr ctx i = None" "\<And>i. ctxDone ctx i = None"
    and nopanic: "\<And>i. 0 \<le> i \<Longrightarrow> i < N \<Longrightarrow> calculateBackoff i (Retry config) (draw ctx i) \<noteq> None"
    and N: "MaxRetries (Retry config) = N" "0 \<le> N" "N < 2 ^ 63 - 1"
  shows "\<exists>code status rb waits.
           Do w (sent c + nat N) httpReq = Response code status rb
         \<and> Execute ctx config w req c =
             Some (Return (Inl (Wrapped (''max retries ('' @ string_of_int N @ '') exceeded: '')
                                  (Some (HTTPStatusError code status (fst rb))))),
                   \<lparr>healthy = False, sent = sent c + nat N + 1\<rparr>, nat N + 1, waits)
         \<and> length waits = nat N"
proof -
  let ?op = "execute w req :: client \<Rightarrow> (error + 'a) \<times> client"
  have ne: "\<And>n. \<exists>code status rb.
           Do w n (preq\<lparr>Headers := SetHeaders (reqProvider req) (Headers preq)\<rparr>)
             = Response code status rb \<and> code \<noteq> 200"
    using status unfolding httpReq by fastforce
  have fail: "\<And>s :: client. \<exists>err. fst (?op s) = Inl err \<and> isRetryableError (Some err)"
  proof -
    fix s :: client
    obtain code status rb where r: "Do w (sent s) httpReq = Response code status rb"
      "code = 429 \<or> code = 502 \<or> code = 503 \<or> code = 504"
      using status by blast
    then have "code \<noteq> 200" by auto
    then have "?op s = (Inl (HTTPStatusError code status (fst rb)),
                        \<lparr>healthy = False, sent = Suc (sent s)\<rparr>)"
      using execute_status[OF marshal prepare create] r(1) unfolding httpReq by blast
    then show "\<exists>err. fst (?op s) = Inl err \<and> isRetryableError (Some err)"
      using r(2) isRetryableError_HTTPStatusError by (metis fst_conv)
  qed
  obtain err ws where run:
    "doWithRetry_loop ctx (Retry config) ?op 0 None c 0 [] =
       Some (Return (Inl (Wrapped (''max retries ('' @ string_of_int (MaxRetries (Retry config))
                                     @ '') exceeded: '') (Some err))),
             (stateAfter ?op ^^ (nat N + 1)) c, 0 + nat N + 1, [] @ ws)"
    "length ws = nat N"
    "fst (?op ((stateAfter ?op ^^ nat N) c)) = Inl err"
    using doWithRetry_loop_exhaust[of ?op ctx "Retry config" 0 "nat N" None c 0 "[]"]
      fail ctx nopanic N by auto
  let ?c = "(stateAfter ?op ^^ nat N) c"
  have sent: "sent ?c = sent c + nat N"
  proof (cases "nat N")
    case 0
    then show ?thesis by simp
  next
    case (Suc k)
    then show ?thesis using after_execute_status[OF marshal prepare create ne, of k c] by simp
  qed
  obtain code status rb where r: "Do w (sent c + nat N) httpReq = Response code status rb"
      "code = 429 \<or> code = 502 \<or> code = 503 \<or> code = 504"
    using status by blast
  then have "code \<noteq> 200" by auto
  then have "?op ?c = (Inl (HTTPStatusError code status (fst rb)),
                        \<lparr>healthy = False, sent = Suc (sent ?c)\<rparr>)"
    using execute_status[OF marshal prepare create, of ?c] r(1) sent unfolding httpReq by simp
  then have err: "err = HTTPStatusError code status (fst rb)" using run(3) by simp
  have fin: "(stateAfter ?op ^^ (nat N + 1)) c = \<lparr>healthy = False, sent = sent c + nat N + 1\<rparr>"
    using after_execute_status[OF marshal prepare create ne, of "nat N" c] by simp
  show ?thesis
    using r(1) run(1,2) err fin N(1) unfolding Execute_def doWithRetry_def by auto
qed

theorem C1_Execute_retries_exhausted_witness:
  "\<exists>waits. Execute background
      (exampleConfig \<lparr>MaxRetries = 2, InitialBackoff = 100, MaxBackoff = 1000, Jitter = False\<rparr>)
      (exampleWorld (Response 503 ''503 Service Unavailable'' (''busy'', None)))
      (exampleRequest Chat (Inr ''{}'')) New
    = Some (Return (Inl (Wrapped ''max retries (2) exceeded: ''
              (Some (HTTPStatusError 503 ''503 Service Unavailable'' ''busy'')))),
            \<lparr>healthy = False, sent = 3\<rparr>, 3, waits)
    \<and> length waits = 2"
  using C1_Execute_retries_exhausted [where
    req = "exampleRequest Chat (Inr ''{}'')" and body = "''{}''"
    and preq = "\<lparr>URL = ''http://host/v1/chat/completions'',
                  Headers = [(''Content-Type'', ''application/json'')], Body = ''{}''\<rparr>"
    and httpReq = "\<lparr>URL = ''http://host/v1/chat/completions'',
                  Headers = [(''Content-Type'', ''application/json'')], Body = ''{}''\<rparr>"
    and w = "exampleWorld (Response 503 ''503 Service Unavailable'' (''busy'', None))"
    and ctx = background and N = 2
    and config = "exampleConfig \<lparr>MaxRetries = 2, InitialBackoff = 100, MaxBackoff = 1000,
                                   Jitter = False\<rparr>"
    and c = New]
  by (simp add: exampleRequest_def exampleProvider_def exampleWorld_def background_def
        exampleConfig_def calculateBackoff_def Let_def New_def string_of_int_def digit_def
        numeral_3_eq_3)

text \<open>
  Claim C1 as stated fails in three ways. A context cancelled during the first backoff ends
  the run after one attempt, with the cancellation error. With \<open>max_retries = -2\<close> no
  attempt is made (not \<open>N + 1 = -1\<close>) and the error wraps no attempt's error. With
  jitter on and an initial backoff of 0 the random draw of the first backoff panics.
\<close>

theorem C1_counterexample:
  "Execute (background\<lparr>ctxDone := (\<lambda>i. Some Canceled)\<rparr>)
     (exampleConfig \<lparr>MaxRetries = 3, InitialBackoff = 100, MaxBackoff = 1000, Jitter = False\<rparr>)
     (exampleWorld (Response 503 ''503 Service Unavailable'' (''busy'', None)))
     (exampleRequest Chat (Inr ''{}'')) New
   = Some (Return (Inl (Wrapped ''operation cancelled during backoff: '' (Some Canceled))),
           \<lparr>healthy = False, sent = 1\<rparr>, 1, [])
   \<and> Execute background
     (exampleConfig \<lparr>MaxRetries = - 2, InitialBackoff = 100, MaxBackoff = 1000, Jitter = False\<rparr>)
     (exampleWorld (Response 503 ''503 Service Unavailable'' (''busy'', None)))
     (exampleRequest Chat (Inr ''{}'')) New
   = Some (Return (Inl (Wrapped ''max retries (-2) exceeded: '' None)), New, 0, [])
   \<and> Execute background
     (exampleConfig \<lparr>MaxRetries = 3, InitialBackoff = 0, MaxBackoff = 1000, Jitter = True\<rparr>)
     (exampleWorld (Response 503 ''503 Service Unavailable'' (''busy'', None)))
     (exampleRequest Chat (Inr ''{}'')) New
   = Some (Panic, \<lparr>healthy = False, sent = 1\<rparr>, 1, [])"
proof (intro conjI)
  show "Execute (background\<lparr>ctxDone := (\<lambda>i. Some Canceled)\<rparr>)
     (exampleConfig \<lparr>MaxRetries = 3, InitialBackoff = 100, MaxBackoff = 1000, Jitter = False\<rparr>)
     (exampleWorld (Response 503 ''503 Service Unavailable'' (''busy'', None)))
     (exampleRequest Chat (Inr ''{}'')) New
   = Some (Return (Inl (Wrapped ''operation cancelled during backoff: '' (Some Canceled))),
           \<lparr>healthy = False, sent = 1\<rparr>, 1, [])"
    by (simp add: run_simps)
  show "Execute background
     (exampleConfig \<lparr>MaxRetries = - 2, InitialBackoff = 100, MaxBackoff = 1000, Jitter = False\<rparr>)
     (exampleWorld (Response 503 ''503 Service Unavailable'' (''busy'', None)))
     (exampleRequest Chat (Inr ''{}'')) New
   = Some (Return (Inl (Wrapped ''max retries (-2) exceeded: '' None)), New, 0, [])"
    by (simp add: run_simps)
  show "Execute background
     (exampleConfig \<lparr>MaxRetries = 3, InitialBackoff = 0, MaxBackoff = 1000, Jitter = True\<rparr>)
     (exampleWorld (Response 503 ''503 Service Unavailable'' (''busy'', None)))
     (exampleRequest Chat (Inr ''{}'')) New
   = Some (Panic, \<lparr>healthy = False, sent = 1\<rparr>, 1, [])"
    by (simp add: run_simps)
qed

text \<open>
  Claim C4. When the first attempt of Execute is made (\<open>max_retries \<ge> 0\<close>, the context
  not cancelled on entry) and fails with a cancellation or deadline error, or with an
  HTTP status error whose status is none of 429, 502, 503, 504, Execute returns that very
  error after one invocation of the operation and no wait.
\<close>

theorem C4_Execute_non_retryable:
  assumes "0 \<le> MaxRetries (Retry config)"
    and "ctxErr ctx 0 = None"
    and "execute w req c = (Inl err, c')"
    and "errorsIs err Canceled \<or> errorsIs err DeadlineExceeded
         \<or> (\<exists>code status b. err = HTTPStatusError code status b
              \<and> code \<noteq> 429 \<and> code \<noteq> 502 \<and> code \<noteq> 503 \<and> code \<noteq> 504)"
  shows "Execute ctx config w req c = Some (Return (Inl err), c', 1, [])"
proof -
  have "\<not> isRetryableError (Some err)"
    using assms(4) isRetryableError_context isRetryableError_HTTPStatusError by blast
  then show ?thesis
    unfolding Execute_def doWithRetry_def
    using assms(1-3) by (subst doWithRetry_loop.simps) (simp del: isRetryableError.simps)
qed

theorem C4_Execute_non_retryable_witness:
  "Execute background
      (exampleConfig \<lparr>MaxRetries = 3, InitialBackoff = 100, MaxBackoff = 1000, Jitter = True\<rparr>)
      (exampleWorld (Response 404 ''404 Not Found'' (''missing'', None)))
      (exampleRequest Chat (Inr ''{}'')) New
    = Some (Return (Inl (HTTPStatusError 404 ''404 Not Found'' ''missing'')),
            \<lparr>healthy = False, sent = 1\<rparr>, 1, [])
   \<and> Execute background
      (exampleConfig \<lparr>MaxRetries = 3, InitialBackoff = 100, MaxBackoff = 1000, Jitter = True\<rparr>)
      (exampleWorld (TransportError (URLError (Some Canceled))))
      (exampleRequest Chat (Inr ''{}'')) New
    = Some (Return (Inl (URLError (Some Canceled))), \<lparr>healthy = False, sent = 1\<rparr>, 1, [])"
  using C4_Execute_non_retryable [where ctx = background
      and config = "exampleConfig \<lparr>MaxRetries = 3, InitialBackoff = 100, MaxBackoff = 1000,
                                     Jitter = True\<rparr>"
      and w = "exampleWorld (Response 404 ''404 Not Found'' (''missing'', None))"
      and req = "exampleRequest Chat (Inr ''{}'')" and c = New
      and err = "HTTPStatusError 404 ''404 Not Found'' ''missing''"
      and c' = "\<lparr>healthy = False, sent = 1\<rparr>"]
    C4_Execute_non_retryable [where ctx = background
      and config = "exampleConfig \<lparr>MaxRetries = 3, InitialBackoff = 100, MaxBackoff = 1000,
                                     Jitter = True\<rparr>"
      and w = "exampleWorld (TransportError (URLError (Some Canceled)))"
      and req = "exampleRequest Chat (Inr ''{}'')" and c = New
      and err = "URLError (Some Canceled)"
      and c' = "\<lparr>healthy = False, sent = 1\<rparr>"]
  by (simp add: exampleRequest_def exampleProvider_def exampleWorld_def background_def
        exampleConfig_def execute_def Let_def New_def setHealthy_def errorsIs_def)

text \<open>
  Claim C6, as the code has it. After one attempt: a successful attempt leaves the client
  healthy; an attempt that fails once the request has reached the transport (transport
  error, status other than 200, failure of ProcessResponse) leaves it unhealthy; an
  attempt that fails before (marshalling, preparation, creation of the HTTP request)
  leaves the client as it was.
\<close>

theorem C6_execute_health:
  "(case execute w req c of
      (Inr result, c') \<Rightarrow> IsHealthy c'
    | (Inl err, c') \<Rightarrow>
        (case reqMarshal req of
           Inl e \<Rightarrow> c' = c
         | Inr body \<Rightarrow>
             (case PrepareRequest (reqProvider req) (reqProtocol req) body (reqHeaders req) of
                Inl e \<Rightarrow> c' = c
              | Inr providerRequest \<Rightarrow>
                  (case NewRequestWithContext w (URL providerRequest) of
                     Some e \<Rightarrow> c' = c
                   | None \<Rightarrow> \<not> IsHealthy c'))))"
  by (simp add: execute_def Let_def setHealthy_def IsHealthy_def
        split: sum.splits option.splits httpResult.splits prod.splits)

text \<open>
  Claim C6 as stated fails for a marshal failure: a fresh client is healthy, and after an
  attempt that fails in marshalling it still is.
\<close>

theorem C6_counterexample:
  "execute (exampleWorld (Response 200 ''200 OK'' (''{}'', None)))
     (exampleRequest Vision (Inl (ErrorString ''images cannot be empty for vision requests'')))
     New
   = (Inl (Wrapped ''failed to marshal request: ''
        (Some (ErrorString ''images cannot be empty for vision requests''))), New)
   \<and> IsHealthy New"
  by (simp add: execute_def exampleRequest_def exampleProvider_def exampleWorld_def New_def
        IsHealthy_def Let_def)

text \<open>
  Claim C8. For a request of the embeddings protocol ExecuteStream returns the
  streaming-support error and leaves the client untouched, whatever marshalling, the
  provider and the network would do: nothing is marshalled or sent. For a chat, vision or
  tools request the check passes and ExecuteStream is \<open>executeStream\<close>.
\<close>

theorem C8_ExecuteStream_embeddings:
  "(reqProtocol req = Embeddings \<longrightarrow>
      ExecuteStream cancelled w req c
        = (Inl (ErrorString ''protocol embeddings does not support streaming''), c))
   \<and> (reqProtocol req = Chat \<or> reqProtocol req = Vision \<or> reqProtocol req = Tools \<longrightarrow>
        SupportsStreaming (reqProtocol req)
        \<and> ExecuteStream cancelled w req c = executeStream cancelled w req c)"
  by (auto simp: ExecuteStream_def SupportsStreaming_def Embeddings_def Chat_def Vision_def
        Tools_def Let_def)

theorem C8_ExecuteStream_embeddings_witness:
  "ExecuteStream (\<lambda>n. False) (exampleWorld (Response 200 ''200 OK'' (''{}'', None)))
     (exampleRequest Embeddings (Inl (ErrorString ''unused''))) New
   = (Inl (ErrorString ''protocol embeddings does not support streaming''), New)
   \<and> SupportsStreaming Chat
   \<and> ExecuteStream (\<lambda>n. False) (exampleWorld (Response 200 ''200 OK'' (''{}'', None)))
       (exampleRequest Chat (Inr ''{}'')) New
     = executeStream (\<lambda>n. False) (exampleWorld (Response 200 ''200 OK'' (''{}'', None)))
       (exampleRequest Chat (Inr ''{}'')) New"
  using C8_ExecuteStream_embeddings [of "exampleRequest Embeddings (Inl (ErrorString ''unused''))"
      "\<lambda>n. False" "exampleWorld (Response 200 ''200 OK'' (''{}'', None))" New]
    C8_ExecuteStream_embeddings [of "exampleRequest Chat (Inr ''{}'')"
      "\<lambda>n. False" "exampleWorld (Response 200 ''200 OK'' (''{}'', None))" New]
  by (simp add: exampleRequest_def)

section \<open>Properties of the Ollama provider\<close>

lemma HasSuffix_append: "HasSuffix (h @ s) s"
  by (simp add: HasSuffix_def)

lemma TrimSuffix_append: "TrimSuffix (h @ s) s = h"
  by (simp add: TrimSuffix_def HasSuffix_def)

lemma TrimSuffix_none: "\<not> HasSuffix h s \<Longrightarrow> TrimSuffix h s = h"
  by (simp add: TrimSuffix_def)

lemma HasSuffix_slash_v1: "\<not> HasSuffix (h @ ''/'') ''/v1''"
  by (auto simp: HasSuffix_def)

text \<open>
  Claim C9. For a host URL that ends neither in a slash nor in \<open>/v1\<close> (such as
  \<open>http://host\<close>), the providers built from the base URLs \<open>host\<close>,
  \<open>host/\<close> and \<open>host/v1\<close> all resolve the chat protocol to
  \<open>host/v1/chat/completions\<close>; and the normalization is idempotent: building a
  provider from the base URL of a built provider gives the same provider.
\<close>

theorem C9_Ollama_endpoint_normalized:
  assumes "\<not> HasSuffix host ''/''" and "\<not> HasSuffix host ''/v1''"
  shows "(\<forall>base \<in> {host, host @ ''/'', host @ ''/v1''}.
            \<exists>p. NewOllama \<lparr>ProviderConfig.Name = n, BaseURL = base,
                           ProviderConfig.Options = opts\<rparr> = Inr p
               \<and> Ollama_Endpoint p Chat = Inr (host @ ''/v1/chat/completions''))
       \<and> (\<forall>p. NewOllama c = Inr p \<longrightarrow> NewOllama (c\<lparr>BaseURL := baseURL p\<rparr>) = Inr p)"
proof (intro conjI ballI allI impI)
  fix base assume "base \<in> {host, host @ ''/'', host @ ''/v1''}"
  then consider "base = host" | "base = host @ ''/''" | "base = host @ ''/v1''" by blast
  then have "(if \<not> HasSuffix base ''/v1'' then TrimSuffix base ''/'' @ ''/v1'' else base)
               = host @ ''/v1''"
  proof cases
    case 1 then show ?thesis using assms by (simp add: TrimSuffix_none)
  next
    case 2 then show ?thesis using HasSuffix_slash_v1 TrimSuffix_append by simp
  next
    case 3 then show ?thesis using HasSuffix_append by simp
  qed
  then show "\<exists>p. NewOllama \<lparr>ProviderConfig.Name = n, BaseURL = base,
                           ProviderConfig.Options = opts\<rparr> = Inr p
               \<and> Ollama_Endpoint p Chat = Inr (host @ ''/v1/chat/completions'')"
    by (simp add: NewOllama_def Ollama_Endpoint_def Let_def Chat_def)
next
  fix p assume p: "NewOllama c = Inr p"
  have "HasSuffix (baseURL p) ''/v1''"
    using p HasSuffix_append by (auto simp: NewOllama_def Let_def split: if_splits)
  then show "NewOllama (c\<lparr>BaseURL := baseURL p\<rparr>) = Inr p"
    using p by (auto simp: NewOllama_def Let_def split: if_splits)
qed

theorem C9_Ollama_endpoint_normalized_witness:
  "(\<exists>p. NewOllama \<lparr>ProviderConfig.Name = ''ollama'', BaseURL = ''http://host'',
                     ProviderConfig.Options = []\<rparr> = Inr p
        \<and> Ollama_Endpoint p Chat = Inr ''http://host/v1/chat/completions'')
   \<and> (\<exists>p. NewOllama \<lparr>ProviderConfig.Name = ''ollama'', BaseURL = ''http://host/'',
                     ProviderConfig.Options = []\<rparr> = Inr p
        \<and> Ollama_Endpoint p Chat = Inr ''http://host/v1/chat/completions'')
   \<and> (\<exists>p. NewOllama \<lparr>ProviderConfig.Name = ''ollama'', BaseURL = ''http://host/v1'',
                     ProviderConfig.Options = []\<rparr> = Inr p
        \<and> Ollama_Endpoint p Chat = Inr ''http://host/v1/chat/completions'')
   \<and> NewOllama \<lparr>ProviderConfig.Name = ''ollama'', BaseURL = ''http://host/v1'',
                 ProviderConfig.Options = []\<rparr>
       = Inr \<lparr>name = ''ollama'', baseURL = ''http://host/v1'', options = []\<rparr>"
  using C9_Ollama_endpoint_normalized [where host = "''http://host''" and n = "''ollama''"
      and opts = "[]"
      and c = "\<lparr>ProviderConfig.Name = ''ollama'', BaseURL = ''http://host'',
                ProviderConfig.Options = []\<rparr>"]
  by (simp add: HasSuffix_def NewOllama_def TrimSuffix_def Let_def)

section \<open>Properties of marshalling\<close>

lemma map_of_mapsCopy:
  "k \<notin> fst ` set src \<Longrightarrow> map_of (mapsCopy dst src) k = map_of dst k"
  unfolding mapsCopy_def
  by (induction src arbitrary: dst) (auto simp: update_conv')

lemma list_all_update:
  "P (k, v) \<Longrightarrow> list_all P al \<Longrightarrow> list_all P (AList.update k v al)"
  by (induction al) auto

lemma list_all_mapsCopy:
  "list_all P dst \<Longrightarrow> list_all P src \<Longrightarrow> list_all P (mapsCopy dst src)"
  unfolding mapsCopy_def
  by (induction src arbitrary: dst) (auto simp: list_all_update)

lemma plain_encodable:
  "plain v \<Longrightarrow> encodable v" and "plainMessage m \<Longrightarrow> encodableMessage m"
  by (induction v and m rule: plain_plainMessage.induct) (auto simp: list_all_iff)

lemma plain_jsonValue:
  "plain v \<Longrightarrow> jsonValue v = v" and "plainMessage m \<Longrightarrow> jsonMessage m = m"
  by (induction v and m rule: plain_plainMessage.induct)
     (auto simp: list_all_iff ValidString_def map_idI)

lemma ValidString_keys:
  "ValidString ''model''" "ValidString ''messages''" "ValidString ''type''"
  "ValidString ''text''" "ValidString ''image_url''" "ValidString ''url''"
  by code_simp+

lemma fold_snoc_map: "fold (\<lambda>x acc. acc @ [f x]) xs acc = acc @ map f xs"
  by (induction xs arbitrary: acc) auto

lemma marshalVision_content:
  "fold (\<lambda>imgURL content.
           (let imageURL0 = [(''url'', Str imgURL)];
                imageURL = (case vo of Some visionOptions \<Rightarrow> mapsCopy imageURL0 visionOptions
                            | None \<Rightarrow> imageURL0)
            in content @ [Obj [(''type'', Str ''image_url''), (''image_url'', Obj imageURL)]]))
        images content0
   = content0 @ map (\<lambda>imgURL. Obj [(''type'', Str ''image_url''),
                       (''image_url'', Obj (case vo of
                            Some visionOptions \<Rightarrow> mapsCopy [(''url'', Str imgURL)] visionOptions
                          | None \<Rightarrow> [(''url'', Str imgURL)]))]) images"
  unfolding Let_def by (rule fold_snoc_map)

lemma transformed_heap:
  assumes "slices h a = front @ [m]" and "a < nextAddr h"
  shows "storeIndex (copySlice (snd (makeSlice h (length (slices h a))))
                       (fst (makeSlice h (length (slices h a)))) a)
                    (fst (makeSlice h (length (slices h a)))) (length (slices h a) - 1) m'
           = h\<lparr>slices := (slices h)(nextAddr h := front @ [m']), nextAddr := Suc (nextAddr h)\<rparr>"
  using assms
  by (auto simp: makeSlice_def copySlice_def storeIndex_def Let_def fun_eq_iff nth_append
        list_update_append)

lemma makeSlice_addr: "fst (makeSlice h n) = nextAddr h"
  by (simp add: makeSlice_def)

text \<open>
  Claim C5, as the code has it. Take a vision payload whose messages end with a message of
  plain-string content and whose image list is not empty; whose options have no key
  \<open>messages\<close> and whose vision options have no key \<open>url\<close>; and whose values can all
  be encoded as JSON with every string valid UTF-8. Then vision marshalling succeeds; the
  document's \<open>messages\<close> are the input messages except the last, whose content is the
  array of one text block with the original text followed by one \<open>image_url\<close> block
  per image, each with the URL of its image, in input order (\<open>n + 1\<close> blocks for
  \<open>n\<close> images); the message slice of the payload is left as it was.
\<close>

theorem C5_marshalVision:
  assumes msgs: "slices h (VisionData.Messages d) = front @ [Message role (Str textContent)]"
    and imgs: "Images d \<noteq> []"
    and alloc: "VisionData.Messages d < nextAddr h"
    and nokey: "''messages'' \<notin> fst ` set (VisionData.Options d)"
    and nourl: "\<forall>visionOptions. VisionOptions d = Some visionOptions
                  \<longrightarrow> ''url'' \<notin> fst ` set visionOptions"
    and valid: "ValidString (VisionData.Model d)" "ValidString role" "ValidString textContent"
      "list_all ValidString (Images d)"
    and plain: "list_all plainMessage front"
      "plain (Obj (VisionData.Options d))"
      "\<forall>visionOptions. VisionOptions d = Some visionOptions \<longrightarrow> plain (Obj visionOptions)"
  shows "\<exists>doc h' imageURLs.
           Marshal h Vision (VisionDataPtr d) = (Inr (Obj doc), h')
         \<and> map_of doc ''messages'' =
             Some (Msgs (front @ [Message role (Arr
               (Obj [(''type'', Str ''text''), (''text'', Str textContent)]
                # map (\<lambda>imageURL. Obj [(''type'', Str ''image_url''),
                                         (''image_url'', Obj imageURL)])
                    imageURLs))]))
         \<and> map (\<lambda>imageURL. map_of imageURL ''url'') imageURLs
               = map (\<lambda>imgURL. Some (Str imgURL)) (Images d)
         \<and> slices h' (VisionData.Messages d) = slices h (VisionData.Messages d)"
proof -
  let ?url = "\<lambda>imgURL. (case VisionOptions d of
                           Some visionOptions \<Rightarrow> mapsCopy [(''url'', Str imgURL)] visionOptions
                         | None \<Rightarrow> [(''url'', Str imgURL)])"
  let ?urls = "map ?url (Images d)"
  let ?blocks = "map (\<lambda>imgURL. Obj [(''type'', Str ''image_url''),
                                      (''image_url'', Obj (?url imgURL))]) (Images d)"
  let ?content = "Obj [(''type'', Str ''text''), (''text'', Str textContent)] # ?blocks"
  let ?new = "front @ [Message role (Arr ?content)]"
  let ?h3 = "h\<lparr>slices := (slices h)(nextAddr h := ?new), nextAddr := Suc (nextAddr h)\<rparr>"
  let ?doc = "mapsCopy [(''model'', Str (VisionData.Model d)), (''messages'', Msgs ?new)]
                (VisionData.Options d)"
  have plainurl: "list_all (\<lambda>kv. ValidString (fst kv) \<and> plain (snd kv)) (?url imgURL)"
    if "ValidString imgURL" for imgURL
  proof (cases "VisionOptions d")
    case None
    then show ?thesis using that by (simp add: ValidString_keys)
  next
    case (Some visionOptions)
    then have "list_all (\<lambda>kv. ValidString (fst kv) \<and> plain (snd kv)) visionOptions"
      using plain(3) by simp
    then have "list_all (\<lambda>kv. ValidString (fst kv) \<and> plain (snd kv))
                 (mapsCopy [(''url'', Str imgURL)] visionOptions)"
      using that by (intro list_all_mapsCopy) (simp_all add: ValidString_keys)
    then show ?thesis using Some by simp
  qed
  have plainblocks: "list_all plain ?blocks"
    using plainurl valid(4) by (auto simp: list_all_iff ValidString_keys)
  have plaindoc: "plain (Obj ?doc)"
    using plain(1,2) plainblocks valid(1,2,3)
    by (auto intro!: list_all_mapsCopy simp: ValidString_keys)
  have last: "slices h (VisionData.Messages d) ! (length (slices h (VisionData.Messages d)) - 1)
                = Message role (Str textContent)"
    using msgs by simp
  have heap: "storeIndex (copySlice (snd (makeSlice h (length (slices h (VisionData.Messages d)))))
                  (fst (makeSlice h (length (slices h (VisionData.Messages d)))))
                  (VisionData.Messages d))
                (fst (makeSlice h (length (slices h (VisionData.Messages d)))))
                (length (slices h (VisionData.Messages d)) - 1) (Message role (Arr ?content))
              = ?h3"
    using transformed_heap[OF msgs alloc] .
  have heap': "storeIndex (copySlice (snd (makeSlice h (Suc (length front))))
                  (nextAddr h) (VisionData.Messages d))
                (nextAddr h) (length front) (Message role (Arr ?content))
              = ?h3"
    using heap msgs by (simp add: makeSlice_addr)
  have "marshalVision h (VisionDataPtr d) = (jsonMarshal (Obj ?doc), ?h3)"
    using imgs msgs
    by (simp add: Let_def split_def fold_snoc_map heap' makeSlice_addr)
  moreover have "jsonMarshal (Obj ?doc) = Inr (Obj ?doc)"
    unfolding jsonMarshal_def
    using plain_encodable(1)[OF plaindoc] plain_jsonValue(1)[OF plaindoc] by simp
  ultimately have run: "Marshal h Vision (VisionDataPtr d) = (Inr (Obj ?doc), ?h3)"
    by (simp add: Marshal_def Vision_def Chat_def)
  have blocks: "?blocks = map (\<lambda>imageURL. Obj [(''type'', Str ''image_url''),
                                                (''image_url'', Obj imageURL)]) ?urls"
    by (simp add: comp_def)
  have lookup: "map_of ?doc ''messages'' =
      Some (Msgs (front @ [Message role (Arr
               (Obj [(''type'', Str ''text''), (''text'', Str textContent)]
                # map (\<lambda>imageURL. Obj [(''type'', Str ''image_url''),
                                         (''image_url'', Obj imageURL)])
                    ?urls))]))"
    using nokey unfolding blocks[symmetric] by (simp add: map_of_mapsCopy)
  have "map_of (?url imgURL) ''url'' = Some (Str imgURL)" for imgURL
    using nourl by (cases "VisionOptions d") (simp_all add: map_of_mapsCopy)
  then have urls: "map (\<lambda>imageURL. map_of imageURL ''url'') ?urls
                     = map (\<lambda>imgURL. Some (Str imgURL)) (Images d)"
    by (simp add: comp_def)
  have same: "slices ?h3 (VisionData.Messages d) = slices h (VisionData.Messages d)"
    using alloc by simp
  show ?thesis
    using run lookup urls same by blast
qed

text \<open>
  Claim C10. For a vision payload with no messages, marshalling through the public Marshal
  returns the error \<^verbatim>\<open>messages cannot be empty for vision requests\<close>, whatever the
  images are, and changes nothing.
\<close>

theorem C10_Marshal_vision_empty_messages:
  assumes "slices h (VisionData.Messages d) = []"
  shows "Marshal h Vision (VisionDataPtr d)
           = (Inl (ErrorString ''messages cannot be empty for vision requests''), h)"
  using assms by (simp add: Marshal_def Vision_def Chat_def)



theorem C5_marshalVision_witness:
  "\<exists>doc h' imageURLs.
     Marshal (exampleHeap [Message ''user'' (Str ''What is in this image?'')]) Vision
       (VisionDataPtr (exampleVision [(''max_tokens'', Num 1024)])) = (Inr (Obj doc), h')
     \<and> map_of doc ''messages'' =
         Some (Msgs [Message ''user'' (Arr
           (Obj [(''type'', Str ''text''), (''text'', Str ''What is in this image?'')]
            # map (\<lambda>imageURL. Obj [(''type'', Str ''image_url''),
                                     (''image_url'', Obj imageURL)])
                imageURLs))])
     \<and> map (\<lambda>imageURL. map_of imageURL ''url'') imageURLs
           = [Some (Str ''https://example.com/a.jpg''), Some (Str ''https://example.com/b.jpg'')]
     \<and> slices h' 0 = [Message ''user'' (Str ''What is in this image?'')]"
proof -
  have v: "ValidString ''gpt-4-vision''" "ValidString ''user''"
    "ValidString ''What is in this image?''" "ValidString ''https://example.com/a.jpg''"
    "ValidString ''https://example.com/b.jpg''" "ValidString ''max_tokens''"
    "ValidString ''detail''" "ValidString ''high''"
    by code_simp+
  show ?thesis
    using C5_marshalVision [where
        h = "exampleHeap [Message ''user'' (Str ''What is in this image?'')]"
        and d = "exampleVision [(''max_tokens'', Num 1024)]" and front = "[]"
        and role = "''user''" and textContent = "''What is in this image?''"]
    by (simp add: exampleHeap_def exampleVision_def v)
qed

text \<open>
  Claim C5 as stated fails at payloads with a plain-text last message and two images.
  Options are copied into the document last, so an option \<open>messages\<close> replaces the
  transformed messages. An option value that JSON cannot encode makes marshalling fail.
  A text that is not valid UTF-8 (the bytes 61 FF 62) is not carried as it is: the encoder
  writes U+FFFD for the byte FF. And vision options are copied into each image's map after
  its URL, so a vision option \<open>url\<close> replaces the URL of every image.
\<close>

theorem C5_counterexample:
  "fst (Marshal (exampleHeap [Message ''user'' (Str ''What is in this image?'')]) Vision
          (VisionDataPtr (exampleVision [(''messages'', Str ''x'')])))
     = Inr (Obj [(''model'', Str ''gpt-4-vision''), (''messages'', Str ''x'')])
   \<and> fst (Marshal (exampleHeap [Message ''user'' (Str ''What is in this image?'')]) Vision
          (VisionDataPtr (exampleVision [(''temperature'', Unsupported)])))
     = Inl (ErrorString ''json: unsupported type'')
   \<and> fst (Marshal (exampleHeap [Message ''user'' (Str [CHR 0x61, CHR 0xFF, CHR 0x62])]) Vision
          (VisionDataPtr (exampleVision [])))
     = Inr (Obj [(''model'', Str ''gpt-4-vision''),
                 (''messages'', Msgs [Message ''user'' (Arr
                    [Obj [(''type'', Str ''text''),
                          (''text'', Str [CHR 0x61, CHR 0xEF, CHR 0xBF, CHR 0xBD, CHR 0x62])],
                     Obj [(''type'', Str ''image_url''),
                          (''image_url'', Obj [(''url'', Str ''https://example.com/a.jpg''),
                                               (''detail'', Str ''high'')])],
                     Obj [(''type'', Str ''image_url''),
                          (''image_url'', Obj [(''url'', Str ''https://example.com/b.jpg''),
                                               (''detail'', Str ''high'')])]])])])
   \<and> fst (Marshal (exampleHeap [Message ''user'' (Str ''What is in this image?'')]) Vision
          (VisionDataPtr ((exampleVision [])\<lparr>VisionOptions := Some [(''url'', Str ''x'')]\<rparr>)))
     = Inr (Obj [(''model'', Str ''gpt-4-vision''),
                 (''messages'', Msgs [Message ''user'' (Arr
                    [Obj [(''type'', Str ''text''), (''text'', Str ''What is in this image?'')],
                     Obj [(''type'', Str ''image_url''), (''image_url'', Obj [(''url'', Str ''x'')])],
                     Obj [(''type'', Str ''image_url''),
                          (''image_url'', Obj [(''url'', Str ''x'')])]])])])"
proof (intro conjI)
  show "fst (Marshal (exampleHeap [Message ''user'' (Str ''What is in this image?'')]) Vision
          (VisionDataPtr (exampleVision [(''messages'', Str ''x'')])))
     = Inr (Obj [(''model'', Str ''gpt-4-vision''), (''messages'', Str ''x'')])"
    by code_simp
  show "fst (Marshal (exampleHeap [Message ''user'' (Str ''What is in this image?'')]) Vision
          (VisionDataPtr (exampleVision [(''temperature'', Unsupported)])))
     = Inl (ErrorString ''json: unsupported type'')"
    by code_simp
  show "fst (Marshal (exampleHeap [Message ''user'' (Str [CHR 0x61, CHR 0xFF, CHR 0x62])]) Vision
          (VisionDataPtr (exampleVision [])))
     = Inr (Obj [(''model'', Str ''gpt-4-vision''),
                 (''messages'', Msgs [Message ''user'' (Arr
                    [Obj [(''type'', Str ''text''),
                          (''text'', Str [CHR 0x61, CHR 0xEF, CHR 0xBF, CHR 0xBD, CHR 0x62])],
                     Obj [(''type'', Str ''image_url''),
                          (''image_url'', Obj [(''url'', Str ''https://example.com/a.jpg''),
                                               (''detail'', Str ''high'')])],
                     Obj [(''type'', Str ''image_url''),
                          (''image_url'', Obj [(''url'', Str ''https://example.com/b.jpg''),
                                               (''detail'', Str ''high'')])]])])])"
    by code_simp
  show "fst (Marshal (exampleHeap [Message ''user'' (Str ''What is in this image?'')]) Vision
          (VisionDataPtr ((exampleVision [])\<lparr>VisionOptions := Some [(''url'', Str ''x'')]\<rparr>)))
     = Inr (Obj [(''model'', Str ''gpt-4-vision''),
                 (''messages'', Msgs [Message ''user'' (Arr
                    [Obj [(''type'', Str ''text''), (''text'', Str ''What is in this image?'')],
                     Obj [(''type'', Str ''image_url''), (''image_url'', Obj [(''url'', Str ''x'')])],
                     Obj [(''type'', Str ''image_url''),
                          (''image_url'', Obj [(''url'', Str ''x'')])]])])])"
    by code_simp
qed

theorem C10_Marshal_vision_empty_messages_witness:
  "Marshal (exampleHeap []) Vision (VisionDataPtr (exampleVision []))
     = (Inl (ErrorString ''messages cannot be empty for vision requests''), exampleHeap [])"
  using C10_Marshal_vision_empty_messages [of "exampleHeap []" "exampleVision []"]
  by (simp add: exampleHeap_def exampleVision_def)

section \<open>Properties of the decode workers\<close>

lemma ReadString_line:
  "CHR 0x0A \<notin> set l \<Longrightarrow> ReadString (l @ CHR 0x0A # rest) = Some (l @ [CHR 0x0A], rest)"
  by (induction l) auto

lemma bodyOf_Nil: "bodyOf [] = []"
  by (simp add: bodyOf_def)

lemma bodyOf_Cons: "bodyOf (l # ls) @ X = l @ CHR 0x0A # (bodyOf ls @ X)"
  by (simp add: bodyOf_def)

lemma bodyOf_append: "bodyOf (xs @ ys) = bodyOf xs @ bodyOf ys"
  by (simp add: bodyOf_def)

lemma Ollama_worker_end:
  "Ollama_worker U c p final n [] = (if c n then [] else finalChunk final)"
  by (subst Ollama_worker.simps) (simp add: finalChunk_def split: option.splits)

lemma Ollama_worker_step:
  assumes "CHR 0x0A \<notin> set l"
  shows "Ollama_worker U c p final n (l @ CHR 0x0A # rest) =
     (if TrimSpace (l @ [CHR 0x0A]) = [] then Ollama_worker U c p final n rest
      else if TrimSpace (l @ [CHR 0x0A]) = ''data: [DONE]'' then []
      else (case Ollama_decode U p l of
              None \<Rightarrow> Ollama_worker U c p final n rest
            | Some chunk \<Rightarrow>
                if c n then [] else chunk # Ollama_worker U c p final (Suc n) rest))"
  by (subst Ollama_worker.simps)
     (simp add: ReadString_line[OF assms] Ollama_decode_def Let_def split: sum.splits)

lemma Ollama_decode_blank: "TrimSpace (l @ [CHR 0x0A]) = [] \<Longrightarrow> Ollama_decode U p l = None"
  by (simp add: Ollama_decode_def)

lemma Ollama_worker_lines:
  assumes "\<forall>l \<in> set before. CHR 0x0A \<notin> set l"
    and "\<And>n. Ollama_worker U c p f1 n X = Ollama_worker U c p f2 n Y"
  shows "Ollama_worker U c p f1 n (bodyOf before @ X) = Ollama_worker U c p f2 n (bodyOf before @ Y)"
  using assms(1)
proof (induction before arbitrary: n)
  case Nil
  then show ?case using assms(2) by (simp add: bodyOf_Nil)
next
  case (Cons l ls)
  then have l: "CHR 0x0A \<notin> set l" and IH: "\<And>n. Ollama_worker U c p f1 n (bodyOf ls @ X) =
      Ollama_worker U c p f2 n (bodyOf ls @ Y)"
    by auto
  show ?case
    unfolding bodyOf_Cons Ollama_worker_step[OF l] IH ..
qed

lemma Ollama_worker_decoded:
  assumes "\<forall>l \<in> set ls. CHR 0x0A \<notin> set l \<and> TrimSpace (l @ [CHR 0x0A]) \<noteq> ''data: [DONE]''"
  shows "Ollama_worker U (\<lambda>n. False) p final n (bodyOf ls @ X) =
           List.map_filter (Ollama_decode U p) ls
           @ Ollama_worker U (\<lambda>n. False) p final (n + length (List.map_filter (Ollama_decode U p) ls)) X"
  using assms
proof (induction ls arbitrary: n)
  case Nil
  then show ?case by (simp add: bodyOf_Nil map_filter_simps)
next
  case (Cons l ls)
  then have l: "CHR 0x0A \<notin> set l" "TrimSpace (l @ [CHR 0x0A]) \<noteq> ''data: [DONE]''"
    and IH: "\<And>n. Ollama_worker U (\<lambda>n. False) p final n (bodyOf ls @ X) =
           List.map_filter (Ollama_decode U p) ls
           @ Ollama_worker U (\<lambda>n. False) p final (n + length (List.map_filter (Ollama_decode U p) ls)) X"
    by auto
  show ?case
    unfolding bodyOf_Cons Ollama_worker_step[OF l(1)]
    using l(2) by (auto simp: IH map_filter_simps Ollama_decode_blank split: option.splits)
qed

lemma Azure_worker_end:
  "Azure_worker U c p final n [] = (if c n then [] else finalChunk final)"
  by (subst Azure_worker.simps) (simp add: finalChunk_def split: option.splits)

lemma Azure_marker:
  "HasPrefix line ''data: '' \<Longrightarrow> (TrimPrefix line ''data: '' = ''[DONE]'') = (line = ''data: [DONE]'')"
proof -
  assume h: "HasPrefix line ''data: ''"
  then have "take (length ''data: '') line = ''data: ''"
    unfolding HasPrefix_def by blast
  then have "line = ''data: '' @ drop (length ''data: '') line"
    by (metis append_take_drop_id)
  then obtain t where t: "line = ''data: '' @ t" ..
  show ?thesis using h unfolding t by (simp add: TrimPrefix_def HasPrefix_def)
qed

lemma Azure_worker_step:
  assumes "CHR 0x0A \<notin> set l"
  shows "Azure_worker U c p final n (l @ CHR 0x0A # rest) =
     (if TrimSpace (l @ [CHR 0x0A]) = [] then Azure_worker U c p final n rest
      else if TrimSpace (l @ [CHR 0x0A]) = ''data: [DONE]'' then []
      else (case Azure_decode U p l of
              None \<Rightarrow> Azure_worker U c p final n rest
            | Some chunk \<Rightarrow>
                if c n then [] else chunk # Azure_worker U c p final (Suc n) rest))"
proof (cases "HasPrefix (TrimSpace (l @ [CHR 0x0A])) ''data: ''")
  case True
  show ?thesis
    by (subst Azure_worker.simps)
       (simp add: ReadString_line[OF assms] Azure_decode_def Let_def Azure_marker[OF True] True
          split: sum.splits)
next
  case False
  then have "TrimSpace (l @ [CHR 0x0A]) \<noteq> ''data: [DONE]''"
    by (auto simp: HasPrefix_def)
  then show ?thesis using False
    by (subst Azure_worker.simps)
       (simp add: ReadString_line[OF assms] Azure_decode_def Let_def)
qed

lemma Azure_decode_blank: "TrimSpace (l @ [CHR 0x0A]) = [] \<Longrightarrow> Azure_decode U p l = None"
  by (simp add: Azure_decode_def)

lemma Azure_worker_lines:
  assumes "\<forall>l \<in> set before. CHR 0x0A \<notin> set l"
    and "\<And>n. Azure_worker U c p f1 n X = Azure_worker U c p f2 n Y"
  shows "Azure_worker U c p f1 n (bodyOf before @ X) = Azure_worker U c p f2 n (bodyOf before @ Y)"
  using assms(1)
proof (induction before arbitrary: n)
  case Nil
  then show ?case using assms(2) by (simp add: bodyOf_Nil)
next
  case (Cons l ls)
  then have l: "CHR 0x0A \<notin> set l" and IH: "\<And>n. Azure_worker U c p f1 n (bodyOf ls @ X) =
      Azure_worker U c p f2 n (bodyOf ls @ Y)"
    by auto
  show ?case
    unfolding bodyOf_Cons Azure_worker_step[OF l] IH ..
qed

lemma Azure_worker_decoded:
  assumes "\<forall>l \<in> set ls. CHR 0x0A \<notin> set l \<and> TrimSpace (l @ [CHR 0x0A]) \<noteq> ''data: [DONE]''"
  shows "Azure_worker U (\<lambda>n. False) p final n (bodyOf ls @ X) =
           List.map_filter (Azure_decode U p) ls
           @ Azure_worker U (\<lambda>n. False) p final (n + length (List.map_filter (Azure_decode U p) ls)) X"
  using assms
proof (induction ls arbitrary: n)
  case Nil
  then show ?case by (simp add: bodyOf_Nil map_filter_simps)
next
  case (Cons l ls)
  then have l: "CHR 0x0A \<notin> set l" "TrimSpace (l @ [CHR 0x0A]) \<noteq> ''data: [DONE]''"
    and IH: "\<And>n. Azure_worker U (\<lambda>n. False) p final n (bodyOf ls @ X) =
           List.map_filter (Azure_decode U p) ls
           @ Azure_worker U (\<lambda>n. False) p final (n + length (List.map_filter (Azure_decode U p) ls)) X"
    by auto
  show ?case
    unfolding bodyOf_Cons Azure_worker_step[OF l(1)]
    using l(2) by (auto simp: IH map_filter_simps Azure_decode_blank split: option.splits)
qed

lemma forward_chunks: "forward (\<lambda>n. False) n (map IsChunk chunks) = (chunks, True)"
  by (induction chunks arbitrary: n) auto

text \<open>
  Claim C2, as the code has it. Both workers stop at a line that, trimmed of white space,
  is \<^verbatim>\<open>data: [DONE]\<close> (for the Azure worker: the prefix \<^verbatim>\<open>data: \<close> followed by
  the payload \<^verbatim>\<open>[DONE]\<close>). For a body whose lines before the first such line are
  \<open>before\<close>, and a context that is never cancelled, the consumer receives exactly the
  chunks decoded from \<open>before\<close>, in order, and then the channel is closed; nothing of
  what follows the marker is delivered.
\<close>

theorem C2_stream_stops_at_marker:
  assumes before: "\<forall>l \<in> set before. CHR 0x0A \<notin> set l
                      \<and> TrimSpace (l @ [CHR 0x0A]) \<noteq> ''data: [DONE]''"
    and marker: "CHR 0x0A \<notin> set marker" "TrimSpace (marker @ [CHR 0x0A]) = ''data: [DONE]''"
  shows "(\<exists>stream. Ollama_ProcessStreamResponse U (\<lambda>n. False) 200
                      (bodyOf (before @ [marker]) @ rest, final) p = Inr stream
            \<and> forward (\<lambda>n. False) 0 stream
                = (List.map_filter (Ollama_decode U p) before, True))
       \<and> (\<exists>stream. Azure_ProcessStreamResponse U (\<lambda>n. False) 200
                      (bodyOf (before @ [marker]) @ rest, final) p = Inr stream
            \<and> forward (\<lambda>n. False) 0 stream
                = (List.map_filter (Azure_decode U p) before, True))"
proof -
  have body: "bodyOf (before @ [marker]) @ rest = bodyOf before @ (marker @ CHR 0x0A # rest)"
    by (simp add: bodyOf_def)
  have o: "Ollama_worker U (\<lambda>n. False) p final n (marker @ CHR 0x0A # rest) = []" for n
    by (simp add: Ollama_worker_step[OF marker(1)] marker(2))
  have a: "Azure_worker U (\<lambda>n. False) p final n (marker @ CHR 0x0A # rest) = []" for n
    by (simp add: Azure_worker_step[OF marker(1)] marker(2))
  have "Ollama_worker U (\<lambda>n. False) p final 0 (bodyOf (before @ [marker]) @ rest)
          = List.map_filter (Ollama_decode U p) before"
    unfolding body Ollama_worker_decoded[OF before] o by simp
  moreover have "Azure_worker U (\<lambda>n. False) p final 0 (bodyOf (before @ [marker]) @ rest)
          = List.map_filter (Azure_decode U p) before"
    unfolding body Azure_worker_decoded[OF before] a by simp
  ultimately show ?thesis
    by (simp add: Ollama_ProcessStreamResponse_def Azure_ProcessStreamResponse_def forward_chunks)
qed

theorem C2_stream_stops_at_marker_witness:
  \<open>(\<exists>stream. Ollama_ProcessStreamResponse exampleUnmarshal (\<lambda>n. False) 200
       (bodyOf [''data: {"id":"chunk1"}'', ''data: {"id":"chunk2"}'', ''data: [DONE]'']
          @ ''data: {"id":"chunk3"}'', None)
       Chat = Inr stream
     \<and> forward (\<lambda>n. False) 0 stream = ([exampleChunk ''chunk1'', exampleChunk ''chunk2''], True))
   \<and> (\<exists>stream. Azure_ProcessStreamResponse exampleUnmarshal (\<lambda>n. False) 200
       (bodyOf [''data: {"id":"chunk1"}'', ''data: {"id":"chunk2"}'', ''data: [DONE]'']
          @ ''data: {"id":"chunk3"}'', None)
       Chat = Inr stream
     \<and> forward (\<lambda>n. False) 0 stream = ([exampleChunk ''chunk1'', exampleChunk ''chunk2''], True))\<close>
proof -
  have t: \<open>TrimSpace (''data: {"id":"chunk1"}'' @ [CHR 0x0A]) = ''data: {"id":"chunk1"}''\<close>
    \<open>TrimSpace (''data: {"id":"chunk2"}'' @ [CHR 0x0A]) = ''data: {"id":"chunk2"}''\<close>
    \<open>TrimSpace ''data: [DONE]\<newline>'' = ''data: [DONE]''\<close>
    by code_simp+
  have d: \<open>Ollama_decode exampleUnmarshal Chat ''data: {"id":"chunk1"}''
         = Some (exampleChunk ''chunk1'')\<close>
    \<open>Ollama_decode exampleUnmarshal Chat ''data: {"id":"chunk2"}''
         = Some (exampleChunk ''chunk2'')\<close>
    \<open>Azure_decode exampleUnmarshal Chat ''data: {"id":"chunk1"}''
         = Some (exampleChunk ''chunk1'')\<close>
    \<open>Azure_decode exampleUnmarshal Chat ''data: {"id":"chunk2"}''
         = Some (exampleChunk ''chunk2'')\<close>
    by code_simp+
  show ?thesis
    using C2_stream_stops_at_marker [where
        before = \<open>[''data: {"id":"chunk1"}'', ''data: {"id":"chunk2"}'']\<close>
        and marker = \<open>''data: [DONE]''\<close> and U = exampleUnmarshal and p = Chat
        and rest = \<open>''data: {"id":"chunk3"}''\<close> and final = None]
    using t d by simp
qed

text \<open>
  Claim C2 as stated fails for the Azure worker: a line \<^verbatim>\<open>event: [DONE]\<close> (or
  \<^verbatim>\<open>event:[DONE]\<close>), whose payload after stripping the \<^verbatim>\<open>event:\<close> prefix is
  \<^verbatim>\<open>[DONE]\<close>, does not stop it, and the chunk that follows is delivered.
\<close>

theorem C2_counterexample:
  \<open>Azure_ProcessStreamResponse exampleUnmarshal (\<lambda>n. False) 200
     (bodyOf [''data: {"id":"chunk1"}'', ''event: [DONE]'', ''event:[DONE]'',
              ''data: {"id":"chunk2"}''], None) Chat
   = Inr [IsChunk (exampleChunk ''chunk1''), IsChunk (exampleChunk ''chunk2'')]
   \<and> TrimPrefix ''event: [DONE]'' ''event: '' = ''[DONE]''
   \<and> TrimPrefix ''event:[DONE]'' ''event:'' = ''[DONE]''\<close>
  by code_simp

text \<open>
  Claim C7. Let \<open>bad\<close> be a line of the body that is not the termination marker and
  that the worker fails to decode. Then the worker delivers exactly what it delivers for
  the body without that line, for every behaviour of the context; and when no line is the
  termination marker and the context is never cancelled, the consumer receives the chunks
  decoded from the lines before \<open>bad\<close>, then those from the lines after it, then only
  the chunk of a read error if the body ends in one, and the channel is closed.
\<close>

theorem C7_malformed_line_skipped:
  assumes lines: "\<forall>l \<in> set (before @ [bad] @ after). CHR 0x0A \<notin> set l"
    and bad: "TrimSpace (bad @ [CHR 0x0A]) \<noteq> ''data: [DONE]''"
  shows "(Ollama_decode U p bad = None \<longrightarrow>
            Ollama_worker U c p final n (bodyOf (before @ [bad] @ after) @ rest)
              = Ollama_worker U c p final n (bodyOf (before @ after) @ rest)
          \<and> ((\<forall>l \<in> set (before @ after). TrimSpace (l @ [CHR 0x0A]) \<noteq> ''data: [DONE]'') \<longrightarrow>
                (\<exists>stream. Ollama_ProcessStreamResponse U (\<lambda>n. False) 200
                             (bodyOf (before @ [bad] @ after), final) p = Inr stream
                   \<and> forward (\<lambda>n. False) 0 stream
                       = (List.map_filter (Ollama_decode U p) before
                          @ List.map_filter (Ollama_decode U p) after @ finalChunk final, True))))
       \<and> (Azure_decode U p bad = None \<longrightarrow>
            Azure_worker U c p final n (bodyOf (before @ [bad] @ after) @ rest)
              = Azure_worker U c p final n (bodyOf (before @ after) @ rest)
          \<and> ((\<forall>l \<in> set (before @ after). TrimSpace (l @ [CHR 0x0A]) \<noteq> ''data: [DONE]'') \<longrightarrow>
                (\<exists>stream. Azure_ProcessStreamResponse U (\<lambda>n. False) 200
                             (bodyOf (before @ [bad] @ after), final) p = Inr stream
                   \<and> forward (\<lambda>n. False) 0 stream
                       = (List.map_filter (Azure_decode U p) before
                          @ List.map_filter (Azure_decode U p) after @ finalChunk final, True))))"
proof -
  have lb: "\<forall>l \<in> set before. CHR 0x0A \<notin> set l" and lbad: "CHR 0x0A \<notin> set bad"
    using lines by auto
  have b1: "bodyOf (before @ [bad] @ after) @ rest
              = bodyOf before @ (bad @ CHR 0x0A # (bodyOf after @ rest))"
    and b2: "bodyOf (before @ after) @ rest = bodyOf before @ (bodyOf after @ rest)"
    by (simp_all add: bodyOf_def)
  have all: "\<forall>l \<in> set (before @ [bad] @ after). CHR 0x0A \<notin> set l
               \<and> TrimSpace (l @ [CHR 0x0A]) \<noteq> ''data: [DONE]''"
    if "\<forall>l \<in> set (before @ after). TrimSpace (l @ [CHR 0x0A]) \<noteq> ''data: [DONE]''"
    using that lines bad by auto
  show ?thesis
  proof (intro conjI impI)
    assume d: "Ollama_decode U p bad = None"
    have "Ollama_worker U c p final m (bad @ CHR 0x0A # (bodyOf after @ rest))
            = Ollama_worker U c p final m (bodyOf after @ rest)" for m
      using bad d by (simp add: Ollama_worker_step[OF lbad])
    then show "Ollama_worker U c p final n (bodyOf (before @ [bad] @ after) @ rest)
              = Ollama_worker U c p final n (bodyOf (before @ after) @ rest)"
      unfolding b1 b2 by (rule Ollama_worker_lines[OF lb])
  next
    assume d: "Ollama_decode U p bad = None"
      and nm: "\<forall>l \<in> set (before @ after). TrimSpace (l @ [CHR 0x0A]) \<noteq> ''data: [DONE]''"
    have "Ollama_worker U (\<lambda>n. False) p final 0 (bodyOf (before @ [bad] @ after) @ [])
            = List.map_filter (Ollama_decode U p) (before @ [bad] @ after) @ finalChunk final"
      unfolding Ollama_worker_decoded[OF all[OF nm]] by (simp add: Ollama_worker_end)
    moreover have "List.map_filter (Ollama_decode U p) (before @ [bad] @ after)
            = List.map_filter (Ollama_decode U p) before @ List.map_filter (Ollama_decode U p) after"
      using d by (simp add: map_filter_def)
    ultimately have "Ollama_worker U (\<lambda>n. False) p final 0 (bodyOf (before @ [bad] @ after))
            = (List.map_filter (Ollama_decode U p) before
               @ List.map_filter (Ollama_decode U p) after @ finalChunk final)"
      by simp
    then show "\<exists>stream. Ollama_ProcessStreamResponse U (\<lambda>n. False) 200
                             (bodyOf (before @ [bad] @ after), final) p = Inr stream
                   \<and> forward (\<lambda>n. False) 0 stream
                       = (List.map_filter (Ollama_decode U p) before
                          @ List.map_filter (Ollama_decode U p) after @ finalChunk final, True)"
      by (simp add: Ollama_ProcessStreamResponse_def forward_chunks del: map_append)
  next
    assume d: "Azure_decode U p bad = None"
    have "Azure_worker U c p final m (bad @ CHR 0x0A # (bodyOf after @ rest))
            = Azure_worker U c p final m (bodyOf after @ rest)" for m
      using bad d by (simp add: Azure_worker_step[OF lbad])
    then show "Azure_worker U c p final n (bodyOf (before @ [bad] @ after) @ rest)
              = Azure_worker U c p final n (bodyOf (before @ after) @ rest)"
      unfolding b1 b2 by (rule Azure_worker_lines[OF lb])
  next
    assume d: "Azure_decode U p bad = None"
      and nm: "\<forall>l \<in> set (before @ after). TrimSpace (l @ [CHR 0x0A]) \<noteq> ''data: [DONE]''"
    have "Azure_worker U (\<lambda>n. False) p final 0 (bodyOf (before @ [bad] @ after) @ [])
            = List.map_filter (Azure_decode U p) (before @ [bad] @ after) @ finalChunk final"
      unfolding Azure_worker_decoded[OF all[OF nm]] by (simp add: Azure_worker_end)
    moreover have "List.map_filter (Azure_decode U p) (before @ [bad] @ after)
            = List.map_filter (Azure_decode U p) before @ List.map_filter (Azure_decode U p) after"
      using d by (simp add: map_filter_def)
    ultimately have "Azure_worker U (\<lambda>n. False) p final 0 (bodyOf (before @ [bad] @ after))
            = (List.map_filter (Azure_decode U p) before
               @ List.map_filter (Azure_decode U p) after @ finalChunk final)"
      by simp
    then show "\<exists>stream. Azure_ProcessStreamResponse U (\<lambda>n. False) 200
                             (bodyOf (before @ [bad] @ after), final) p = Inr stream
                   \<and> forward (\<lambda>n. False) 0 stream
                       = (List.map_filter (Azure_decode U p) before
                          @ List.map_filter (Azure_decode U p) after @ finalChunk final, True)"
      by (simp add: Azure_ProcessStreamResponse_def forward_chunks del: map_append)
  qed
qed

theorem C7_malformed_line_skipped_witness:
  \<open>Ollama_worker exampleUnmarshal (\<lambda>n. False) Chat None 0
       (bodyOf [''data: {"id":"chunk1"}'', ''data: {"id":'', ''data: {"id":"chunk2"}''])
     = Ollama_worker exampleUnmarshal (\<lambda>n. False) Chat None 0
         (bodyOf [''data: {"id":"chunk1"}'', ''data: {"id":"chunk2"}''])
   \<and> (\<exists>stream. Ollama_ProcessStreamResponse exampleUnmarshal (\<lambda>n. False) 200
         (bodyOf [''data: {"id":"chunk1"}'', ''data: {"id":'', ''data: {"id":"chunk2"}''], None) Chat = Inr stream
       \<and> forward (\<lambda>n. False) 0 stream
           = ([exampleChunk ''chunk1'', exampleChunk ''chunk2''], True))
   \<and> Azure_worker exampleUnmarshal (\<lambda>n. False) Chat None 0
       (bodyOf [''data: {"id":"chunk1"}'', ''data: {"id":'', ''data: {"id":"chunk2"}''])
     = Azure_worker exampleUnmarshal (\<lambda>n. False) Chat None 0
         (bodyOf [''data: {"id":"chunk1"}'', ''data: {"id":"chunk2"}''])
   \<and> (\<exists>stream. Azure_ProcessStreamResponse exampleUnmarshal (\<lambda>n. False) 200
         (bodyOf [''data: {"id":"chunk1"}'', ''data: {"id":'', ''data: {"id":"chunk2"}''], None) Chat = Inr stream
       \<and> forward (\<lambda>n. False) 0 stream
           = ([exampleChunk ''chunk1'', exampleChunk ''chunk2''], True))\<close>
proof -
  have t: \<open>TrimSpace (''data: {"id":"chunk1"}'' @ [CHR 0x0A]) = ''data: {"id":"chunk1"}''\<close>
    \<open>TrimSpace (''data: {"id":"chunk2"}'' @ [CHR 0x0A]) = ''data: {"id":"chunk2"}''\<close>
    \<open>TrimSpace (''data: {"id":'' @ [CHR 0x0A]) = ''data: {"id":''\<close>
    by code_simp+
  have d: \<open>Ollama_decode exampleUnmarshal Chat ''data: {"id":"chunk1"}''
         = Some (exampleChunk ''chunk1'')\<close>
    \<open>Ollama_decode exampleUnmarshal Chat ''data: {"id":"chunk2"}''
         = Some (exampleChunk ''chunk2'')\<close>
    \<open>Ollama_decode exampleUnmarshal Chat ''data: {"id":'' = None\<close>
    \<open>Azure_decode exampleUnmarshal Chat ''data: {"id":"chunk1"}''
         = Some (exampleChunk ''chunk1'')\<close>
    \<open>Azure_decode exampleUnmarshal Chat ''data: {"id":"chunk2"}''
         = Some (exampleChunk ''chunk2'')\<close>
    \<open>Azure_decode exampleUnmarshal Chat ''data: {"id":'' = None\<close>
    by code_simp+
  show ?thesis
    using C7_malformed_line_skipped [where before = \<open>[''data: {"id":"chunk1"}'']\<close>
        and bad = \<open>''data: {"id":''\<close> and after = \<open>[''data: {"id":"chunk2"}'']\<close>
        and U = exampleUnmarshal and p = Chat and final = None and c = \<open>\<lambda>n. False\<close>
        and n = 0 and rest = \<open>[]\<close>]
    using t d by (simp add: finalChunk_def)
qed

end
